theory Spec2Isabelle
  imports Complex_Main
begin

section \<open>Data model\<close>

text \<open>
  Shallow embedding of \<^verbatim>\<open>library/std/unstable_state_preparation.qs\<close>
  (namespace \<^verbatim>\<open>Microsoft.Quantum.Unstable.StatePreparation\<close>).

  Q\# \<^verbatim>\<open>Double\<close> is modelled by \<^typ>\<open>real\<close> (exact arithmetic, no rounding),
  \<^verbatim>\<open>Int\<close> by \<^typ>\<open>int\<close> (no 64-bit overflow) or, for array lengths and
  loop indices that are never negative, by \<^typ>\<open>nat\<close>. A \<^verbatim>\<open>Qubit\<close> is an
  opaque handle. The Q\# type \<^verbatim>\<open>Complex\<close> is \<^typ>\<open>complex\<close>.
\<close>

type_synonym Qubit = nat

datatype Pauli = PauliI | PauliX | PauliY | PauliZ

datatype ComplexPolar = ComplexPolar (Magnitude: real) (Argument: real)

datatype Range = Range (RangeStart: int) (RangeStep: int) (RangeEnd: int)

text \<open>
  Failures. Q\# has one kind of user failure, the \<^verbatim>\<open>fail\<close> statement; the
  specification calls it \<open>InvalidArgument\<close>. Reading an array outside its bounds and
  a range of step zero are failures of the runtime.
\<close>

datatype error = InvalidArgument | IndexOutOfRange | RangeStepZero

subsection \<open>Emitted gates\<close>

text \<open>
  The operations of the file have no result; what they do is call intrinsic gates, in
  order. An emitted gate is one such call: \<^verbatim>\<open>H(q)\<close>, \<^verbatim>\<open>S(q)\<close>,
  \<^verbatim>\<open>Adjoint S(q)\<close>, \<^verbatim>\<open>CNOT(control, target)\<close>,
  \<^verbatim>\<open>Controlled X(controls, target)\<close> and
  \<^verbatim>\<open>Exp(paulis, theta, qubits)\<close>. The outcome of an operation is the sequence of
  gates it emitted and, when it failed, the failure that stopped it: the gates emitted
  before a failure stay emitted.
\<close>

datatype gate =
    H Qubit
  | S Qubit
  | AdjointS Qubit
  | CNOT Qubit Qubit
  | ControlledX "Qubit list" Qubit
  | Exp "Pauli list" real "Qubit list"

definition is_CNOT :: "gate \<Rightarrow> bool" where
  "is_CNOT g = (case g of CNOT c t \<Rightarrow> True | _ \<Rightarrow> False)"

type_synonym outcome = "gate list \<times> error option"

definition emit :: "gate list \<Rightarrow> outcome" where
  "emit gs = (gs, None)"

definition failwith :: "error \<Rightarrow> outcome" where
  "failwith e = ([], Some e)"

text \<open>Sequencing of two statements: the second runs only when the first completed.\<close>

fun andThen :: "outcome \<Rightarrow> outcome \<Rightarrow> outcome" where
  "andThen (gs, Some e) _ = (gs, Some e)"
| "andThen (gs, None) (gs', r) = (gs @ gs', r)"

subsection \<open>The adjoint functor\<close>

text \<open>
  Every operation of the file is declared \<^verbatim>\<open>is Adj + Ctl\<close> and the entry point
  calls \<^verbatim>\<open>Adjoint ApproximatelyUnprepareArbitraryState\<close>, so the adjoint
  specialisations are part of the program. They are generated from the bodies: the
  classical statements (\<^verbatim>\<open>let\<close> bindings, \<^verbatim>\<open>fail\<close> guards) keep their
  place, the statements of a block that call operations run in reverse order with every
  call replaced by its adjoint, the branches of an \<^verbatim>\<open>if\<close> are inverted under the
  same condition, and a \<^verbatim>\<open>within/apply\<close> keeps its \<^verbatim>\<open>within\<close> block and
  inverts the \<^verbatim>\<open>apply\<close> block. Each operation of the model therefore takes a
  flag \<open>adj\<close>: \<open>False\<close> is the body, \<open>True\<close> the adjoint. Of the controlled
  specialisations only the one the file writes out is modelled, that of
  \<^verbatim>\<open>ApproximatelyMultiplexZ\<close>; the generated ones are not.

  The adjoints of the intrinsic gates: \<^verbatim>\<open>H\<close>, \<^verbatim>\<open>CNOT\<close> and
  \<^verbatim>\<open>Controlled X\<close> are self-adjoint,
  \<^verbatim>\<open>S\<close> and \<^verbatim>\<open>Adjoint S\<close> are each other's adjoint, and the adjoint of
  \<^verbatim>\<open>Exp\<close> negates the angle.
\<close>

fun AdjointGate :: "gate \<Rightarrow> gate" where
  "AdjointGate (H q) = H q"
| "AdjointGate (S q) = AdjointS q"
| "AdjointGate (AdjointS q) = S q"
| "AdjointGate (CNOT c t) = CNOT c t"
| "AdjointGate (ControlledX cs t) = ControlledX cs t"
| "AdjointGate (Exp paulis theta qubits) = Exp paulis (- theta) qubits"

definition call :: "bool \<Rightarrow> gate \<Rightarrow> outcome" where
  "call adj g = emit [if adj then AdjointGate g else g]"

definition block :: "bool \<Rightarrow> outcome list \<Rightarrow> outcome" where
  "block adj stmts = foldr andThen (if adj then rev stmts else stmts) (emit [])"

text \<open>
  \<^verbatim>\<open>within { w } apply { b }\<close> runs \<open>w\<close>, then \<open>b\<close>, then the adjoint of \<open>w\<close>;
  the \<open>within\<close> block is given as a function of the functor flag it runs under.
\<close>

definition within_apply :: "(bool \<Rightarrow> outcome) \<Rightarrow> outcome \<Rightarrow> outcome" where
  "within_apply w b = andThen (w False) (andThen b (w True))"

text \<open>
  The adjoint of a completed gate sequence is the reversed sequence of the adjoint
  gates (section 4.3: an adjoint synthesis reverses gate order and negates every angle).
  \<open>inverse_of a b\<close> says that the two outcomes completed and that the gates of \<open>a\<close>
  are the adjoint of the gates of \<open>b\<close>.
\<close>

definition AdjointGates :: "gate list \<Rightarrow> gate list" where
  "AdjointGates gs = rev (map AdjointGate gs)"

definition inverse_of :: "outcome \<Rightarrow> outcome \<Rightarrow> bool" where
  "inverse_of a b \<longleftrightarrow> snd a = None \<and> snd b = None \<and> fst a = AdjointGates (fst b)"

section \<open>Library functions the file calls\<close>

text \<open>
  Modelled from the spec: \<^verbatim>\<open>Padded\<close> of \<^verbatim>\<open>Microsoft.Quantum.Arrays\<close>, which is
  not among the sources. Section 4.1: \<open>pad(coeffs, targetLen)\<close> returns a vector of
  exactly \<open>targetLen\<close> entries by appending the default element and fails with
  \<open>InvalidArgument\<close> if \<open>len(coeffs) > targetLen\<close>; section 9: the length
  parameter is signed and its sign selects padding at the head (positive) or at the
  tail (negative). The remarks of the source say the same of short arrays: they are
  padded with zeros if fewer than \<open>2^n\<close> elements are specified.
\<close>

definition Padded :: "int \<Rightarrow> 'a \<Rightarrow> 'a list \<Rightarrow> error + 'a list" where
  "Padded paddedLength defaultElement inputArray =
     (let nElementsInitial = length inputArray;
          nAbsElementsTotal = nat \<bar>paddedLength\<bar>
      in if nElementsInitial > nAbsElementsTotal then Inl InvalidArgument
         else let padArray = replicate (nAbsElementsTotal - nElementsInitial) defaultElement
              in if paddedLength \<ge> 0 then Inr (padArray @ inputArray)
                 else Inr (inputArray @ padArray))"

text \<open>
  Modelled from the spec: \<^verbatim>\<open>Most\<close> and \<^verbatim>\<open>Tail\<close> of
  \<^verbatim>\<open>Microsoft.Quantum.Arrays\<close>, not among the sources. Section 4.3: the recursion
  runs on the controls without the last one (\<open>controls[0..k-1]\<close>, "drop the last
  control") and the dropped unit is the control of the bit flip. \<^verbatim>\<open>Tail\<close> of an
  empty array fails.
\<close>

definition Most :: "'a list \<Rightarrow> 'a list" where
  "Most array = butlast array"

definition Tail :: "'a list \<Rightarrow> error + 'a" where
  "Tail array = (if array = [] then Inl InvalidArgument else Inr (last array))"

text \<open>Array access \<^verbatim>\<open>array[i]\<close>: it fails outside \<open>0 .. Length(array) - 1\<close>.\<close>

definition Item :: "'a list \<Rightarrow> int \<Rightarrow> error + 'a" where
  "Item array i =
     (if 0 \<le> i \<and> i < int (length array) then Inr (array ! nat i) else Inl IndexOutOfRange)"

fun Items :: "'a list \<Rightarrow> int list \<Rightarrow> error + 'a list" where
  "Items array [] = Inr []"
| "Items array (i # is) =
     (case Item array i of
        Inl e \<Rightarrow> Inl e
      | Inr x \<Rightarrow> (case Items array is of Inl e \<Rightarrow> Inl e | Inr xs \<Rightarrow> Inr (x # xs)))"

text \<open>
  Modelled from the spec: the values of a \<^verbatim>\<open>Range\<close>, \<^verbatim>\<open>IsRangeEmpty\<close> and the
  slice \<^verbatim>\<open>array[range]\<close>, which belong to the language and its library. Section
  4.5: the controls are a contiguous range of units of the register, the new target is
  the first remaining control and the new controls are the rest. A range
  \<open>start..step..end\<close> holds \<open>start, start + step, ...\<close> up to \<open>end\<close>; a slice reads
  the array at each of them.
\<close>

definition RangeItems :: "Range \<Rightarrow> error + int list" where
  "RangeItems r =
     (case r of Range start step end \<Rightarrow>
        if step = 0 then Inl RangeStepZero
        else if step > 0 then
          Inr (map (\<lambda>i. start + int i * step) [0..<nat ((end - start) div step + 1)])
        else
          Inr (map (\<lambda>i. start + int i * step) [0..<nat ((start - end) div (- step) + 1)]))"

definition IsRangeEmpty :: "Range \<Rightarrow> error + bool" where
  "IsRangeEmpty r = (case RangeItems r of Inl e \<Rightarrow> Inl e | Inr items \<Rightarrow> Inr (items = []))"

definition Slice :: "'a list \<Rightarrow> Range \<Rightarrow> error + 'a list" where
  "Slice array r = (case RangeItems r of Inl e \<Rightarrow> Inl e | Inr items \<Rightarrow> Items array items)"

text \<open>
  Modelled from the spec: the numeric functions of \<^verbatim>\<open>Microsoft.Quantum.Math\<close>, not
  among the sources. \<^verbatim>\<open>AbsD\<close> is the absolute value and \<^verbatim>\<open>Sqrt\<close> the square
  root. \<^verbatim>\<open>ArcTan2(y, x)\<close> is the two-argument arc tangent, the angle of the point
  \<open>(x, y)\<close> in \<open>(-\<pi>, \<pi>]\<close>, with \<open>atan2(0, 0)\<close> defined as \<open>0\<close> (section 4.2).
\<close>

definition AbsD :: "real \<Rightarrow> real" where
  "AbsD a = \<bar>a\<bar>"

definition Sqrt :: "real \<Rightarrow> real" where
  "Sqrt d = sqrt d"

definition ArcTan2 :: "real \<Rightarrow> real \<Rightarrow> real" where
  "ArcTan2 y x =
     (if x > 0 then arctan (y / x)
      else if x < 0 \<and> y \<ge> 0 then arctan (y / x) + pi
      else if x < 0 \<and> y < 0 then arctan (y / x) - pi
      else if y > 0 then pi / 2
      else if y < 0 then - (pi / 2)
      else 0)"

text \<open>
  Modelled from the spec: the accessors and conversions of the polar form, not among
  the sources. Section 3: an amplitude is a pair (magnitude, phase); a real input \<open>a\<close>
  converts to magnitude \<open>|a|\<close> and phase \<open>0\<close> if \<open>a \<ge> 0\<close>, else \<open>\<pi>\<close>
  (lemma \<open>ComplexAsComplexPolar_of_real\<close> below).
\<close>

definition AbsComplexPolar :: "ComplexPolar \<Rightarrow> real" where
  "AbsComplexPolar input = Magnitude input"

definition ArgComplexPolar :: "ComplexPolar \<Rightarrow> real" where
  "ArgComplexPolar input = Argument input"

definition AbsComplex :: "complex \<Rightarrow> real" where
  "AbsComplex input = Sqrt (Re input * Re input + Im input * Im input)"

definition ArgComplex :: "complex \<Rightarrow> real" where
  "ArgComplex input = ArcTan2 (Im input) (Re input)"

definition ComplexAsComplexPolar :: "complex \<Rightarrow> ComplexPolar" where
  "ComplexAsComplexPolar input = ComplexPolar (AbsComplex input) (ArgComplex input)"

section \<open>The functions of the file\<close>

subsection \<open>Tolerance tests\<close>

text \<open>
  \<^verbatim>\<open>AnyOutsideToleranceD\<close> (source lines 424--434) and
  \<^verbatim>\<open>AnyOutsideToleranceCP\<close> (lines 436--443): a loop over the array that returns
  at the first element outside the tolerance. The first compares with \<open>\<ge>\<close>, the
  second with \<open>>\<close>.
\<close>

primrec AnyOutsideToleranceD :: "real \<Rightarrow> real list \<Rightarrow> bool" where
  "AnyOutsideToleranceD tolerance [] = False"
| "AnyOutsideToleranceD tolerance (coefficient # coefficients) =
     (if AbsD coefficient \<ge> tolerance then True
      else AnyOutsideToleranceD tolerance coefficients)"

primrec AnyOutsideToleranceCP :: "real \<Rightarrow> ComplexPolar list \<Rightarrow> bool" where
  "AnyOutsideToleranceCP tolerance [] = False"
| "AnyOutsideToleranceCP tolerance (coefficient # coefficients) =
     (if AbsComplexPolar coefficient > tolerance then True
      else AnyOutsideToleranceCP tolerance coefficients)"

subsection \<open>Sum/difference split of an angle vector\<close>

text \<open>
  \<^verbatim>\<open>MultiplexZCoefficients\<close> (source lines 411--422). The two result arrays are
  created with \<^verbatim>\<open>newCoefficientsLength\<close> zeros and updated in place
  (\<^verbatim>\<open>w/=\<close>) by a loop over \<^verbatim>\<open>0 .. newCoefficientsLength - 1\<close>. Every read is
  in range: \<open>idxCoeff + newCoefficientsLength < 2 * newCoefficientsLength \<le> Length(coefficients)\<close>,
  so the function cannot fail.
\<close>

definition MultiplexZCoefficients :: "real list \<Rightarrow> real list \<times> real list" where
  "MultiplexZCoefficients coefficients =
     (let newCoefficientsLength = length coefficients div 2;
          coefficients0 = replicate newCoefficientsLength (0::real);
          coefficients1 = replicate newCoefficientsLength (0::real)
      in foldl (\<lambda>(coefficients0, coefficients1) idxCoeff.
                  (coefficients0[idxCoeff :=
                     0.5 * (coefficients ! idxCoeff + coefficients ! (idxCoeff + newCoefficientsLength))],
                   coefficients1[idxCoeff :=
                     0.5 * (coefficients ! idxCoeff - coefficients ! (idxCoeff + newCoefficientsLength))]))
               (coefficients0, coefficients1) [0..<newCoefficientsLength])"

subsection \<open>Bloch sphere coordinates of a pair of amplitudes\<close>

text \<open>\<^verbatim>\<open>BlochSphereCoordinates\<close> (source lines 255--265).\<close>

definition BlochSphereCoordinates ::
  "ComplexPolar \<Rightarrow> ComplexPolar \<Rightarrow> ComplexPolar \<times> real \<times> real" where
  "BlochSphereCoordinates a0 a1 =
     (let abs0 = AbsComplexPolar a0;
          abs1 = AbsComplexPolar a1;
          arg0 = ArgComplexPolar a0;
          arg1 = ArgComplexPolar a1;
          r = Sqrt (abs0 * abs0 + abs1 * abs1);
          t = 0.5 * (arg0 + arg1);
          phi = arg1 - arg0;
          theta = 2.0 * ArcTan2 abs1 abs0
      in (ComplexPolar r t, phi, theta))"

text \<open>
  \<^verbatim>\<open>StatePreparationSBMComputeCoefficients\<close> (source lines 225--238). The loop
  runs over \<^verbatim>\<open>0 .. 2 .. Length(coefficients) - 1\<close>, reads
  \<^verbatim>\<open>coefficients[idxCoeff]\<close> and \<^verbatim>\<open>coefficients[idxCoeff + 1]\<close> and updates
  the three arrays at \<^verbatim>\<open>idxCoeff / 2\<close>; on an array of odd length the last read is
  out of range. \<open>SBM_loop_body\<close> is one iteration on the loop state
  \<open>(disentanglingZ, disentanglingY, newCoefficients)\<close>.
\<close>

definition SBM_loop_body ::
  "ComplexPolar list \<Rightarrow> error + (real list \<times> real list \<times> ComplexPolar list) \<Rightarrow> nat \<Rightarrow>
   error + (real list \<times> real list \<times> ComplexPolar list)" where
  "SBM_loop_body coefficients state idxCoeff =
     (case state of
        Inl e \<Rightarrow> Inl e
      | Inr (disentanglingZ, disentanglingY, newCoefficients) \<Rightarrow>
          (case Item coefficients (int idxCoeff) of
             Inl e \<Rightarrow> Inl e
           | Inr a0 \<Rightarrow>
               (case Item coefficients (int idxCoeff + 1) of
                  Inl e \<Rightarrow> Inl e
                | Inr a1 \<Rightarrow>
                    (case BlochSphereCoordinates a0 a1 of
                       (rt, phi, theta) \<Rightarrow>
                         Inr (disentanglingZ[idxCoeff div 2 := 0.5 * phi],
                              disentanglingY[idxCoeff div 2 := 0.5 * theta],
                              newCoefficients[idxCoeff div 2 := rt])))))"

definition StatePreparationSBMComputeCoefficients ::
  "ComplexPolar list \<Rightarrow> error + (real list \<times> real list \<times> ComplexPolar list)" where
  "StatePreparationSBMComputeCoefficients coefficients =
     (let disentanglingZ = replicate (length coefficients div 2) (0::real);
          disentanglingY = replicate (length coefficients div 2) (0::real);
          newCoefficients = replicate (length coefficients div 2) (ComplexPolar 0 0)
      in case foldl (SBM_loop_body coefficients)
                (Inr (disentanglingZ, disentanglingY, newCoefficients))
                (map (\<lambda>j. 2 * j) [0..<(length coefficients + 1) div 2]) of
           Inl e \<Rightarrow> Inl e
         | Inr (disentanglingZ, disentanglingY, newCoefficients) \<Rightarrow>
             Inr (disentanglingY, disentanglingZ, newCoefficients))"

subsection \<open>Multiplexed Z rotation\<close>

text \<open>
  \<^verbatim>\<open>ApproximatelyMultiplexZ\<close>, body (source lines 371--392) and its adjoint. The
  length \<^verbatim>\<open>-2 ^ Length(control)\<close> is read as \<open>-(2 ^ Length(control))\<close>, padding at
  the tail, as the comment beside it says.
\<close>

function ApproximatelyMultiplexZ ::
  "bool \<Rightarrow> real \<Rightarrow> real list \<Rightarrow> Qubit list \<Rightarrow> Qubit \<Rightarrow> outcome" where
  "ApproximatelyMultiplexZ adj tolerance coefficients control target =
     (case Padded (- (2 ^ length control)) 0 coefficients of
        Inl e \<Rightarrow> failwith e
      | Inr coefficientsPadded \<Rightarrow>
          if length coefficientsPadded = 1 then
            (if AbsD (coefficientsPadded ! 0) > tolerance
             then call adj (Exp [PauliZ] (coefficientsPadded ! 0) [target])
             else emit [])
          else
            (case MultiplexZCoefficients coefficientsPadded of
               (coefficients0, coefficients1) \<Rightarrow>
                 block adj
                  [ApproximatelyMultiplexZ adj tolerance coefficients0 (Most control) target,
                   if AnyOutsideToleranceD tolerance coefficients1 then
                     (case Tail control of
                        Inl e \<Rightarrow> failwith e
                      | Inr c \<Rightarrow>
                          within_apply (\<lambda>a. call a (CNOT c target))
                            (ApproximatelyMultiplexZ adj tolerance coefficients1 (Most control) target))
                   else emit []]))"
  by pat_completeness auto

text \<open>
  The controlled specialisation of \<^verbatim>\<open>ApproximatelyMultiplexZ\<close> (source lines
  394--406). It pads at the tail to \<open>2 ^ Length(control)\<close>, then at the head to twice
  that, and calls the body twice on the same controls; it does not call itself.
\<close>

definition ApproximatelyMultiplexZ_controlled ::
  "bool \<Rightarrow> Qubit list \<Rightarrow> real \<Rightarrow> real list \<Rightarrow> Qubit list \<Rightarrow> Qubit \<Rightarrow> outcome" where
  "ApproximatelyMultiplexZ_controlled adj controlRegister tolerance coefficients control target =
     (case Padded (- (2 ^ length control)) 0 coefficients of
        Inl e \<Rightarrow> failwith e
      | Inr coefficientsTail \<Rightarrow>
          (case Padded (2 ^ (length control + 1)) 0 coefficientsTail of
             Inl e \<Rightarrow> failwith e
           | Inr coefficientsPadded \<Rightarrow>
               (case MultiplexZCoefficients coefficientsPadded of
                  (coefficients0, coefficients1) \<Rightarrow>
                    block adj
                     [ApproximatelyMultiplexZ adj tolerance coefficients0 control target,
                      if AnyOutsideToleranceD tolerance coefficients1 then
                        within_apply (\<lambda>a. call a (ControlledX controlRegister target))
                          (ApproximatelyMultiplexZ adj tolerance coefficients1 control target)
                      else emit []])))"

subsection \<open>Diagonal unitary\<close>

text \<open>
  \<^verbatim>\<open>ApproximatelyApplyDiagonalUnitary\<close> (source lines 303--324). The guard on an
  empty register is a classical statement: it stays in front in the adjoint as well.
\<close>

function ApproximatelyApplyDiagonalUnitary ::
  "bool \<Rightarrow> real \<Rightarrow> real list \<Rightarrow> Qubit list \<Rightarrow> outcome" where
  "ApproximatelyApplyDiagonalUnitary adj tolerance coefficients qubits =
     (if qubits = [] then failwith InvalidArgument
      else
        (case Padded (- (2 ^ length qubits)) 0 coefficients of
           Inl e \<Rightarrow> failwith e
         | Inr coefficientsPadded \<Rightarrow>
             (case MultiplexZCoefficients coefficientsPadded of
                (coefficients0, coefficients1) \<Rightarrow>
                  block adj
                   [case Tail qubits of
                      Inl e \<Rightarrow> failwith e
                    | Inr t \<Rightarrow> ApproximatelyMultiplexZ adj tolerance coefficients1 (Most qubits) t,
                    if length coefficientsPadded = 2 then
                      (case Item coefficients0 0 of
                         Inl e \<Rightarrow> failwith e
                       | Inr c \<Rightarrow>
                           if AbsD c > tolerance
                           then call adj (Exp [PauliI] (1.0 * c) qubits)
                           else emit [])
                    else ApproximatelyApplyDiagonalUnitary adj tolerance coefficients0 (Most qubits)])))"
  by pat_completeness auto
termination
  by (relation "measure (\<lambda>(adj, tolerance, coefficients, qubits). length qubits)")
     (auto simp: Most_def)

subsection \<open>Multiplexed Pauli rotation\<close>

text \<open>
  \<^verbatim>\<open>ApproximatelyMultiplexPauli\<close> (source lines 196--221). The \<^verbatim>\<open>within\<close>
  block of the Y axis is \<^verbatim>\<open>Adjoint S(target)\<close>, so its inverse is \<^verbatim>\<open>S(target)\<close>.
\<close>

function ApproximatelyMultiplexPauli ::
  "bool \<Rightarrow> real \<Rightarrow> real list \<Rightarrow> Pauli \<Rightarrow> Qubit list \<Rightarrow> Qubit \<Rightarrow> outcome" where
  "ApproximatelyMultiplexPauli adj tolerance coefficients pauli control target =
     (if pauli = PauliZ then
        ApproximatelyMultiplexZ adj tolerance coefficients control target
      else if pauli = PauliX then
        within_apply (\<lambda>a. call a (H target))
          (ApproximatelyMultiplexPauli adj tolerance coefficients PauliZ control target)
      else if pauli = PauliY then
        within_apply (\<lambda>a. call (\<not> a) (S target))
          (ApproximatelyMultiplexPauli adj tolerance coefficients PauliX control target)
      else if pauli = PauliI then
        ApproximatelyApplyDiagonalUnitary adj tolerance coefficients control
      else failwith InvalidArgument)"
  by pat_completeness auto
termination
  by (relation "measure (\<lambda>(adj, tolerance, coefficients, pauli, control, target).
        case pauli of PauliY \<Rightarrow> 2 | PauliX \<Rightarrow> 1 | _ \<Rightarrow> (0::nat))")
     auto

subsection \<open>Disentangling recursion\<close>

text \<open>
  \<^verbatim>\<open>ApproximatelyUnprepareArbitraryState\<close> (source lines 127--156). The arguments
  \<^verbatim>\<open>register[rngControl]\<close> and \<^verbatim>\<open>register[idxTarget]\<close> are evaluated where the
  call stands, inside the \<^verbatim>\<open>if\<close>.
\<close>

function ApproximatelyUnprepareArbitraryState ::
  "bool \<Rightarrow> real \<Rightarrow> ComplexPolar list \<Rightarrow> Range \<Rightarrow> int \<Rightarrow> Qubit list \<Rightarrow> outcome" where
  "ApproximatelyUnprepareArbitraryState adj tolerance coefficients rngControl idxTarget register =
     (case StatePreparationSBMComputeCoefficients coefficients of
        Inl e \<Rightarrow> failwith e
      | Inr (disentanglingY, disentanglingZ, newCoefficients) \<Rightarrow>
          block adj
           [if AnyOutsideToleranceD tolerance disentanglingZ then
              (case Slice register rngControl of
                 Inl e \<Rightarrow> failwith e
               | Inr control \<Rightarrow>
                   (case Item register idxTarget of
                      Inl e \<Rightarrow> failwith e
                    | Inr target \<Rightarrow>
                        ApproximatelyMultiplexPauli adj tolerance disentanglingZ PauliZ
                          control target))
            else emit [],
            if AnyOutsideToleranceD tolerance disentanglingY then
              (case Slice register rngControl of
                 Inl e \<Rightarrow> failwith e
               | Inr control \<Rightarrow>
                   (case Item register idxTarget of
                      Inl e \<Rightarrow> failwith e
                    | Inr target \<Rightarrow>
                        ApproximatelyMultiplexPauli adj tolerance disentanglingY PauliY
                          control target))
            else emit [],
            case IsRangeEmpty rngControl of
              Inl e \<Rightarrow> failwith e
            | Inr rangeEmpty \<Rightarrow>
                if rangeEmpty then
                  (case Item newCoefficients 0 of
                     Inl e \<Rightarrow> failwith e
                   | Inr (ComplexPolar abs0 arg) \<Rightarrow>
                       if AbsD arg > tolerance then
                         (case Item register idxTarget of
                            Inl e \<Rightarrow> failwith e
                          | Inr q \<Rightarrow> call adj (Exp [PauliI] (- 1.0 * arg) [q]))
                       else emit [])
                else if AnyOutsideToleranceCP tolerance newCoefficients then
                  (let newControl = Range (RangeStart rngControl + 1) (RangeStep rngControl)
                                      (RangeEnd rngControl);
                       newTarget = RangeStart rngControl
                   in ApproximatelyUnprepareArbitraryState adj tolerance newCoefficients
                        newControl newTarget register)
                else emit []])"
  by pat_completeness auto

subsection \<open>Entry points\<close>

text \<open>
  \<^verbatim>\<open>ApproximatelyPreparePureStateCP\<close> (source lines 109--123) and
  \<^verbatim>\<open>PreparePureStateD\<close> (lines 56--59). The preparation is the adjoint of the
  disentangling recursion, so the body of the entry point runs it with the flag set and
  the adjoint of the entry point runs its body.
\<close>

definition ApproximatelyPreparePureStateCP ::
  "bool \<Rightarrow> real \<Rightarrow> ComplexPolar list \<Rightarrow> Qubit list \<Rightarrow> outcome" where
  "ApproximatelyPreparePureStateCP adj tolerance coefficients qubits =
     (let nQubits = int (length qubits) in
      case Padded (- (2 ^ nat nQubits)) (ComplexPolar 0.0 0.0) coefficients of
        Inl e \<Rightarrow> failwith e
      | Inr coefficientsPadded \<Rightarrow>
          (let idxTarget = 0;
               rngControl = (if nQubits > 1 then Range 1 1 (nQubits - 1) else Range 1 1 0)
           in ApproximatelyUnprepareArbitraryState (\<not> adj) tolerance coefficientsPadded
                rngControl idxTarget qubits))"

definition PreparePureStateD :: "bool \<Rightarrow> real list \<Rightarrow> Qubit list \<Rightarrow> outcome" where
  "PreparePureStateD adj coefficients qubits =
     (let coefficientsAsComplexPolar =
            map (\<lambda>a. ComplexAsComplexPolar (Complex a 0.0)) coefficients
      in ApproximatelyPreparePureStateCP adj 0.0 coefficientsAsComplexPolar qubits)"

section \<open>Termination of the recursive functions\<close>

text \<open>
  \<^verbatim>\<open>ApproximatelyMultiplexZ\<close> recurses only when the padded array is not of
  length 1, that is when there is a control to drop; the measure is the number of
  controls. \<^verbatim>\<open>ApproximatelyUnprepareArbitraryState\<close> recurses only when some new
  coefficient is outside the tolerance, so the new array is not empty and half as long
  as the old one; the measure is the number of coefficients, which decreases for every
  control range.
\<close>

lemma Padded_length: "Padded n d xs = Inr ys \<Longrightarrow> length ys = nat \<bar>n\<bar>"
  by (auto simp: Padded_def Let_def split: if_splits)

termination ApproximatelyMultiplexZ
proof (relation "measure (\<lambda>(adj, tolerance, coefficients, control, target). length control)")
  show "wf (measure (\<lambda>(adj, tolerance, coefficients, control, target). length control))"
    by simp
next
  fix adj :: bool and tolerance :: real and coefficients control and target :: Qubit
    and coefficientsPadded :: "real list" and coefficients0 coefficients1 :: "real list"
  assume "Padded (- (2 ^ length control)) 0 coefficients = Inr coefficientsPadded"
    and "length coefficientsPadded \<noteq> 1"
  then have "control \<noteq> []"
    by (auto dest!: Padded_length)
  then show "((adj, tolerance, coefficients0, Most control, target),
              (adj, tolerance, coefficients, control, target))
         \<in> measure (\<lambda>(adj, tolerance, coefficients, control, target). length control)"
    by (simp add: Most_def)
  then show "((adj, tolerance, coefficients1, Most control, target),
              (adj, tolerance, coefficients, control, target))
         \<in> measure (\<lambda>(adj, tolerance, coefficients, control, target). length control)"
    by simp
qed

lemma SBM_fold_length:
  "foldl (SBM_loop_body cs) st js = Inr (zs', ys', ns') \<Longrightarrow>
   \<exists>zs ys ns. st = Inr (zs, ys, ns) \<and> length zs' = length zs \<and> length ys' = length ys \<and>
      length ns' = length ns"
proof (induction js arbitrary: st)
  case Nil
  then show ?case by simp
next
  case (Cons j js)
  from Cons.IH [OF Cons.prems [simplified]] obtain zs ys ns where
    st: "SBM_loop_body cs st j = Inr (zs, ys, ns)" and
    len: "length zs' = length zs" "length ys' = length ys" "length ns' = length ns"
    by blast
  from st len show ?case
    by (auto simp: SBM_loop_body_def split: sum.splits prod.splits)
qed

lemma SBM_length:
  "StatePreparationSBMComputeCoefficients cs = Inr (ys, zs, ns) \<Longrightarrow>
   length ys = length cs div 2 \<and> length zs = length cs div 2 \<and> length ns = length cs div 2"
  unfolding StatePreparationSBMComputeCoefficients_def Let_def
  by (auto split: sum.splits dest!: SBM_fold_length)

lemma AnyOutsideToleranceCP_nonempty: "AnyOutsideToleranceCP tol cs \<Longrightarrow> cs \<noteq> []"
  by (cases cs) simp_all

termination ApproximatelyUnprepareArbitraryState
proof (relation "measure (\<lambda>(adj, tolerance, coefficients, rngControl, idxTarget, register).
                   length coefficients)")
  show "wf (measure (\<lambda>(adj, tolerance, coefficients, rngControl, idxTarget, register).
                   length coefficients))"
    by simp
next
  fix adj :: bool and tolerance :: real and coefficients :: "ComplexPolar list"
    and rngControl :: Range and idxTarget :: int and register :: "Qubit list"
    and x2 :: "real list \<times> real list \<times> ComplexPolar list"
    and disentanglingY :: "real list" and y :: "real list \<times> ComplexPolar list"
    and disentanglingZ :: "real list" and newCoefficients :: "ComplexPolar list"
    and newControl :: Range and newTarget :: int
  assume "StatePreparationSBMComputeCoefficients coefficients = Inr x2"
    and "(disentanglingY, y) = x2" and "(disentanglingZ, newCoefficients) = y"
    and "AnyOutsideToleranceCP tolerance newCoefficients"
  then have "length newCoefficients = length coefficients div 2" "newCoefficients \<noteq> []"
    using SBM_length [of coefficients disentanglingY disentanglingZ newCoefficients]
    by (auto dest: AnyOutsideToleranceCP_nonempty)
  then have "length newCoefficients < length coefficients"
    by (cases newCoefficients) auto
  then show "((adj, tolerance, newCoefficients, newControl, newTarget, register),
              (adj, tolerance, coefficients, rngControl, idxTarget, register))
         \<in> measure (\<lambda>(adj, tolerance, coefficients, rngControl, idxTarget, register).
                   length coefficients)"
    by simp
qed

declare ApproximatelyMultiplexZ.simps [simp del]
declare ApproximatelyApplyDiagonalUnitary.simps [simp del]
declare ApproximatelyMultiplexPauli.simps [simp del]
declare ApproximatelyUnprepareArbitraryState.simps [simp del]

section \<open>Loops that fill an array by index\<close>

lemma foldl_update_fill:
  "k \<le> n \<Longrightarrow>
   foldl (\<lambda>xs i. xs[i := f i]) (replicate n d) [0..<k] = map f [0..<k] @ replicate (n - k) d"
proof (induction k)
  case 0
  then show ?case by simp
next
  case (Suc k)
  then have k: "k < n" by simp
  then have r: "replicate (n - k) d = d # replicate (n - Suc k) d"
    by (metis Suc_diff_Suc replicate_Suc)
  from Suc k show ?case
    by (simp add: r list_update_append)
qed

lemma foldl_update_all:
  "foldl (\<lambda>xs i. xs[i := f i]) (replicate n d) [0..<n] = map f [0..<n]"
  using foldl_update_fill [of n n f d] by simp

lemma foldl_pair_split:
  "foldl (\<lambda>(xs, ys) i. (F xs i, G ys i)) (xs, ys) is = (foldl F xs is, foldl G ys is)"
  by (induction "is" arbitrary: xs ys) simp_all

lemma MultiplexZCoefficients_eq:
  "MultiplexZCoefficients cs =
     (map (\<lambda>i. 0.5 * (cs ! i + cs ! (i + length cs div 2))) [0..<length cs div 2],
      map (\<lambda>i. 0.5 * (cs ! i - cs ! (i + length cs div 2))) [0..<length cs div 2])"
  unfolding MultiplexZCoefficients_def Let_def
  by (simp only: foldl_pair_split foldl_update_all)

lemma MultiplexZCoefficients_length:
  "MultiplexZCoefficients cs = (c0, c1) \<Longrightarrow>
   length c0 = length cs div 2 \<and> length c1 = length cs div 2"
  by (auto simp: MultiplexZCoefficients_eq)

section \<open>Claims about the split\<close>

text \<open>
  Claim C2. For an angle vector of even length \<open>2m\<close>, \<^verbatim>\<open>MultiplexZCoefficients\<close>
  returns two vectors of length \<open>m\<close> with
  \<open>even[i] = (angles[i] + angles[i+m]) / 2\<close> and
  \<open>odd[i] = (angles[i] - angles[i+m]) / 2\<close> for every \<open>i < m\<close>.
\<close>

theorem MultiplexZCoefficients_split:
  assumes "length angles = 2 * m"
    and "MultiplexZCoefficients angles = (evens, odds)"
  shows "length evens = m \<and> length odds = m \<and>
         (\<forall>i<m. evens ! i = (angles ! i + angles ! (i + m)) / 2 \<and>
                 odds ! i = (angles ! i - angles ! (i + m)) / 2)"
  using assms by (auto simp: MultiplexZCoefficients_eq)

theorem MultiplexZCoefficients_split_witness:
  "length [1, 2, 3, 5 :: real] = 2 * 2 \<and>
   MultiplexZCoefficients [1, 2, 3, 5] = ([2, 7 / 2], [- 1, - (3 / 2)]) \<and>
   length [2, 7 / 2 :: real] = 2 \<and> length [- 1, - (3 / 2) :: real] = 2 \<and>
   [2, 7 / 2 :: real] ! 0 = ([1, 2, 3, 5] ! 0 + [1, 2, 3, 5] ! (0 + 2)) / 2 \<and>
   [- 1, - (3 / 2) :: real] ! 0 = ([1, 2, 3, 5] ! 0 - [1, 2, 3, 5] ! (0 + 2)) / 2 \<and>
   [2, 7 / 2 :: real] ! 1 = ([1, 2, 3, 5] ! 1 + [1, 2, 3, 5] ! (1 + 2)) / 2 \<and>
   [- 1, - (3 / 2) :: real] ! 1 = ([1, 2, 3, 5] ! 1 - [1, 2, 3, 5] ! (1 + 2)) / 2"
proof -
  have len: "length [1, 2, 3, 5 :: real] = 2 * 2" by simp
  have run: "MultiplexZCoefficients [1, 2, 3, 5] = ([2, 7 / 2], [- 1, - (3 / 2)])"
    by (simp add: MultiplexZCoefficients_def)
  have i0: "(0::nat) < 2" and i1: "(1::nat) < 2" by simp_all
  from MultiplexZCoefficients_split [OF len run] have
    lens: "length [2, 7 / 2 :: real] = 2 \<and> length [- 1, - (3 / 2) :: real] = 2" and
    all: "\<forall>i<2. [2, 7 / 2 :: real] ! i = ([1, 2, 3, 5] ! i + [1, 2, 3, 5] ! (i + 2)) / 2 \<and>
           [- 1, - (3 / 2) :: real] ! i = ([1, 2, 3, 5] ! i - [1, 2, 3, 5] ! (i + 2)) / 2"
    by blast+
  from all i0 i1 have
    "[2, 7 / 2 :: real] ! 0 = ([1, 2, 3, 5] ! 0 + [1, 2, 3, 5] ! (0 + 2)) / 2 \<and>
     [- 1, - (3 / 2) :: real] ! 0 = ([1, 2, 3, 5] ! 0 - [1, 2, 3, 5] ! (0 + 2)) / 2"
    "[2, 7 / 2 :: real] ! 1 = ([1, 2, 3, 5] ! 1 + [1, 2, 3, 5] ! (1 + 2)) / 2 \<and>
     [- 1, - (3 / 2) :: real] ! 1 = ([1, 2, 3, 5] ! 1 - [1, 2, 3, 5] ! (1 + 2)) / 2"
    by blast+
  with len run lens show ?thesis by blast
qed

text \<open>
  Claim C10. The split is exactly invertible over exact arithmetic: for an angle
  vector of even length \<open>2m\<close> and \<open>(evens, odds) = MultiplexZCoefficients(angles)\<close>,
  \<open>even[i] + odd[i] = angles[i]\<close> and \<open>even[i] - odd[i] = angles[i+m]\<close> for every
  \<open>i < m\<close>.
\<close>

theorem MultiplexZCoefficients_invertible:
  assumes "length angles = 2 * m"
    and "MultiplexZCoefficients angles = (evens, odds)"
    and "i < m"
  shows "evens ! i + odds ! i = angles ! i \<and> evens ! i - odds ! i = angles ! (i + m)"
  using assms by (auto simp: MultiplexZCoefficients_eq field_simps)

theorem MultiplexZCoefficients_invertible_witness:
  "length [1, 2, 3, 5 :: real] = 2 * 2 \<and>
   MultiplexZCoefficients [1, 2, 3, 5] = ([2, 7 / 2], [- 1, - (3 / 2)]) \<and> (1::nat) < 2 \<and>
   [2, 7 / 2 :: real] ! 1 + [- 1, - (3 / 2)] ! 1 = [1, 2, 3, 5] ! 1 \<and>
   [2, 7 / 2 :: real] ! 1 - [- 1, - (3 / 2)] ! 1 = [1, 2, 3, 5] ! (1 + 2)"
proof -
  have len: "length [1, 2, 3, 5 :: real] = 2 * 2" by simp
  have run: "MultiplexZCoefficients [1, 2, 3, 5] = ([2, 7 / 2], [- 1, - (3 / 2)])"
    by (simp add: MultiplexZCoefficients_def)
  have i: "(1::nat) < 2" by simp
  from MultiplexZCoefficients_invertible [OF len run i] len run i show ?thesis by blast
qed

section \<open>Outcomes, blocks and padding\<close>

lemma andThen_emit_Nil [simp]: "andThen a (emit []) = a"
  by (cases a; cases "snd a") (auto simp: emit_def)

lemma snd_andThen: "snd (andThen a b) = (if snd a = None then snd b else snd a)"
  by (cases a; cases b) auto

lemma fst_andThen: "fst (andThen a b) = (if snd a = None then fst a @ fst b else fst a)"
  by (cases a; cases b) auto

lemma andThen_completed: "snd a = None \<Longrightarrow> andThen a b = (fst a @ fst b, snd b)"
  by (cases a; cases b) auto

lemma snd_call [simp]: "snd (call adj g) = None"
  by (simp add: call_def emit_def)

lemma snd_emit [simp]: "snd (emit gs) = None"
  by (simp add: emit_def)

lemma fst_emit [simp]: "fst (emit gs) = gs"
  by (simp add: emit_def)

lemma snd_within_apply [simp]: "snd (within_apply (\<lambda>a. call (f a) g) b) = snd b"
  by (simp add: within_apply_def snd_andThen)

lemma within_apply_completed:
  "snd b = None \<Longrightarrow>
   within_apply (\<lambda>a. call (f a) g) b =
     ((if f False then AdjointGate g else g) # fst b @ [if f True then AdjointGate g else g], None)"
  by (simp add: within_apply_def call_def emit_def andThen_completed)

lemma block_two:
  "block adj [a, b] = (if adj then andThen b a else andThen a b)"
  by (simp add: block_def)

lemma block_three:
  "block adj [a, b, c] = (if adj then andThen c (andThen b a) else andThen a (andThen b c))"
  by (simp add: block_def)

lemma AnyOutsideToleranceD_iff:
  "AnyOutsideToleranceD tolerance coefficients \<longleftrightarrow> (\<exists>c\<in>set coefficients. tolerance \<le> \<bar>c\<bar>)"
  by (induction coefficients) (auto simp: AbsD_def)

lemma Padded_tail:
  "length xs \<le> 2 ^ k \<Longrightarrow>
   Padded (- (2 ^ k)) d xs = Inr (xs @ replicate (2 ^ k - length xs) d)"
  by (simp add: Padded_def Let_def nat_power_eq)

lemma Padded_too_long:
  "2 ^ k < length xs \<Longrightarrow> Padded (- (2 ^ k)) d xs = Inl InvalidArgument"
  by (simp add: Padded_def Let_def nat_power_eq)

section \<open>The multiplexed Z rotation, level by level\<close>

lemma ApproximatelyMultiplexZ_leaf:
  assumes "length cs \<le> 1"
  shows "ApproximatelyMultiplexZ adj tol cs [] t =
           (if tol < \<bar>(cs @ [0]) ! 0\<bar>
            then ([Exp [PauliZ] (if adj then - ((cs @ [0]) ! 0) else (cs @ [0]) ! 0) [t]], None)
            else ([], None))"
proof -
  from assms have "cs = [] \<or> (\<exists>a. cs = [a])"
    by (cases cs) auto
  then show ?thesis
    by (auto simp: ApproximatelyMultiplexZ.simps Padded_def AbsD_def call_def emit_def)
qed

lemma ApproximatelyMultiplexZ_node:
  assumes "control \<noteq> []" and "length cs \<le> 2 ^ length control"
    and "MultiplexZCoefficients (cs @ replicate (2 ^ length control - length cs) 0) = (c0, c1)"
  shows "ApproximatelyMultiplexZ adj tol cs control t =
           block adj
             [ApproximatelyMultiplexZ adj tol c0 (butlast control) t,
              if \<exists>c\<in>set c1. tol \<le> \<bar>c\<bar>
              then within_apply (\<lambda>a. call a (CNOT (last control) t))
                     (ApproximatelyMultiplexZ adj tol c1 (butlast control) t)
              else emit []]"
proof -
  from assms(1) have "(2::nat) ^ length control \<noteq> 1"
    by (cases control) auto
  with assms show ?thesis
    by (subst ApproximatelyMultiplexZ.simps)
       (simp add: Padded_tail Most_def Tail_def AnyOutsideToleranceD_iff)
qed

lemma MultiplexZCoefficients_padded_length:
  assumes "control \<noteq> []" and "length cs \<le> 2 ^ length control"
    and "MultiplexZCoefficients (cs @ replicate (2 ^ length control - length cs) 0) = (c0, c1)"
  shows "length c0 = 2 ^ length (butlast control) \<and> length c1 = 2 ^ length (butlast control)"
proof -
  from assms(1) obtain k where k: "length control = Suc k"
    by (cases control) auto
  from MultiplexZCoefficients_length [OF assms(3)] assms(2) k show ?thesis
    by simp
qed

lemma ApproximatelyMultiplexZ_completes:
  "length cs \<le> 2 ^ length control \<Longrightarrow> snd (ApproximatelyMultiplexZ adj tol cs control t) = None"
proof (induction control arbitrary: cs rule: rev_induct)
  case Nil
  then show ?case by (simp add: ApproximatelyMultiplexZ_leaf)
next
  case (snoc q control)
  obtain c0 c1 where split:
    "MultiplexZCoefficients (cs @ replicate (2 ^ length (control @ [q]) - length cs) 0) = (c0, c1)"
    by (cases "MultiplexZCoefficients (cs @ replicate (2 ^ length (control @ [q]) - length cs) 0)")
  from MultiplexZCoefficients_padded_length [OF _ snoc.prems split]
  have len: "length c0 \<le> 2 ^ length control" "length c1 \<le> 2 ^ length control"
    by simp_all
  from snoc.IH [OF len(1)] snoc.IH [OF len(2)] show ?case
    by (cases adj)
       (simp_all add: ApproximatelyMultiplexZ_node [OF _ snoc.prems split] block_two snd_andThen)
qed

section \<open>Claims about the Bloch sphere coordinates and the diagonal unitary\<close>

lemma ArcTan2_zero [simp]: "ArcTan2 0 0 = 0"
  by (simp add: ArcTan2_def)

lemma ComplexAsComplexPolar_of_real:
  "ComplexAsComplexPolar (Complex a 0) = ComplexPolar \<bar>a\<bar> (if a \<ge> 0 then 0 else pi)"
  by (simp add: ComplexAsComplexPolar_def AbsComplex_def ArgComplex_def Sqrt_def ArcTan2_def)

text \<open>
  Claim C1, as amended. For amplitudes \<open>a0 = (r0, t0)\<close> and \<open>a1 = (r1, t1)\<close> with
  \<open>r0 \<ge> 0\<close> and \<open>r1 \<ge> 0\<close>, \<^verbatim>\<open>BlochSphereCoordinates(a0, a1)\<close> returns exactly
  \<open>(ComplexPolar(sqrt(r0^2 + r1^2), (t0 + t1) / 2), t1 - t0, 2 * atan2(r1, r0))\<close>; on
  the degenerate input \<open>r0 = r1 = 0\<close> it returns \<open>theta = 0\<close> and
  \<open>phi = t1 - t0\<close>, which is \<open>0\<close> only when the two phases are equal.
\<close>

theorem BlochSphereCoordinates_value:
  assumes "0 \<le> r0" and "0 \<le> r1"
  shows "BlochSphereCoordinates (ComplexPolar r0 t0) (ComplexPolar r1 t1) =
           (ComplexPolar (sqrt (r0\<^sup>2 + r1\<^sup>2)) ((t0 + t1) / 2), t1 - t0, 2 * ArcTan2 r1 r0) \<and>
         BlochSphereCoordinates (ComplexPolar 0 t0) (ComplexPolar 0 t1) =
           (ComplexPolar 0 ((t0 + t1) / 2), t1 - t0, 0)"
  by (simp add: BlochSphereCoordinates_def AbsComplexPolar_def ArgComplexPolar_def Sqrt_def
      power2_eq_square)

theorem BlochSphereCoordinates_value_witness:
  "(0::real) \<le> 3 \<and> (0::real) \<le> 4 \<and>
   BlochSphereCoordinates (ComplexPolar 3 1) (ComplexPolar 4 2) =
     (ComplexPolar 5 (3 / 2), 1, 2 * ArcTan2 4 3) \<and>
   BlochSphereCoordinates (ComplexPolar 0 1) (ComplexPolar 0 2) = (ComplexPolar 0 (3 / 2), 1, 0)"
proof -
  have r0: "(0::real) \<le> 3" and r1: "(0::real) \<le> 4" by simp_all
  have "sqrt (3\<^sup>2 + 4\<^sup>2) = sqrt (5\<^sup>2)" by simp
  then have root: "sqrt (3\<^sup>2 + 4\<^sup>2) = 5" by simp
  from BlochSphereCoordinates_value [OF r0 r1, of 1 2] root r0 r1 show ?thesis by simp
qed

text \<open>
  The claim as first stated asks for \<open>phi = 0\<close> on every degenerate input; with
  magnitudes \<open>0\<close> and phases \<open>0\<close> and \<open>1\<close> the function returns \<open>phi = 1\<close>.
\<close>

theorem BlochSphereCoordinates_degenerate_phi:
  "BlochSphereCoordinates (ComplexPolar 0 0) (ComplexPolar 0 1) = (ComplexPolar 0 (1 / 2), 1, 0)"
  by (simp add: BlochSphereCoordinates_def AbsComplexPolar_def ArgComplexPolar_def Sqrt_def)

text \<open>
  Claim C5. For every tolerance and angle vector,
  \<^verbatim>\<open>ApproximatelyApplyDiagonalUnitary\<close> on an empty register fails with an
  invalid-argument error, and no gate has been emitted when it fails.
\<close>

theorem ApproximatelyApplyDiagonalUnitary_empty_register:
  "ApproximatelyApplyDiagonalUnitary adj tolerance coefficients [] = ([], Some InvalidArgument)"
  by (simp add: ApproximatelyApplyDiagonalUnitary.simps failwith_def)

section \<open>Pruning in the multiplexed Z rotation\<close>

lemma ApproximatelyMultiplexZ_too_long:
  "2 ^ length control < length cs \<Longrightarrow>
   ApproximatelyMultiplexZ adj tol cs control t = ([], Some InvalidArgument)"
  by (subst ApproximatelyMultiplexZ.simps) (simp add: Padded_too_long failwith_def)

lemma set_fst_andThen: "set (fst (andThen a b)) \<subseteq> set (fst a) \<union> set (fst b)"
  by (auto simp: fst_andThen)

lemma set_fst_within_apply:
  "set (fst (within_apply (\<lambda>a. call a g) b)) \<subseteq> {g, AdjointGate g} \<union> set (fst b)"
  by (auto simp: within_apply_def fst_andThen snd_andThen call_def split: if_splits)

lemma ApproximatelyMultiplexZ_CNOT_controls:
  "CNOT q t' \<in> set (fst (ApproximatelyMultiplexZ adj tol cs control t)) \<Longrightarrow> q \<in> set control"
proof (induction control arbitrary: cs rule: rev_induct)
  case Nil
  show ?case
  proof (cases "length cs \<le> 1")
    case True
    with Nil show ?thesis
      by (simp add: ApproximatelyMultiplexZ_leaf split: if_splits)
  next
    case False
    with Nil show ?thesis
      by (simp add: ApproximatelyMultiplexZ_too_long)
  qed
next
  case (snoc c control)
  show ?case
  proof (cases "length cs \<le> 2 ^ length (control @ [c])")
    case False
    with snoc.prems show ?thesis
      by (simp add: ApproximatelyMultiplexZ_too_long)
  next
    case True
    obtain c0 c1 where split:
      "MultiplexZCoefficients (cs @ replicate (2 ^ length (control @ [c]) - length cs) 0) = (c0, c1)"
      by (cases "MultiplexZCoefficients (cs @ replicate (2 ^ length (control @ [c]) - length cs) 0)")
    let ?even = "ApproximatelyMultiplexZ adj tol c0 control t"
    let ?odd = "ApproximatelyMultiplexZ adj tol c1 control t"
    from snoc.prems have
      "CNOT q t' \<in> set (fst ?even) \<union> ({CNOT c t, AdjointGate (CNOT c t)} \<union> set (fst ?odd))"
      using set_fst_andThen set_fst_within_apply [of "CNOT c t" ?odd]
      by (auto simp: ApproximatelyMultiplexZ_node [OF _ True split] block_two fst_andThen
          split: if_splits)
    with snoc.IH [of c0] snoc.IH [of c1] show ?thesis
      by auto
  qed
qed

text \<open>
  At tolerance \<open>0\<close> the whole tree is expanded: on \<open>k\<close> controls the rotation
  emits \<open>2^(k+1) - 2\<close> \<^verbatim>\<open>CNOT\<close> gates, two for each of its \<open>2^k - 1\<close>
  inner levels.
\<close>

lemma ApproximatelyMultiplexZ_tolerance_zero_full_tree:
  "length cs \<le> 2 ^ length control \<Longrightarrow>
   length (filter is_CNOT (fst (ApproximatelyMultiplexZ adj 0 cs control t))) =
     2 ^ (length control + 1) - 2"
proof (induction control arbitrary: cs rule: rev_induct)
  case Nil
  then show ?case by (simp add: ApproximatelyMultiplexZ_leaf is_CNOT_def)
next
  case (snoc q control)
  obtain c0 c1 where split:
    "MultiplexZCoefficients (cs @ replicate (2 ^ length (control @ [q]) - length cs) 0) = (c0, c1)"
    by (cases "MultiplexZCoefficients (cs @ replicate (2 ^ length (control @ [q]) - length cs) 0)")
  from MultiplexZCoefficients_padded_length [OF _ snoc.prems split]
  have len: "length c0 \<le> 2 ^ length control" "length c1 \<le> 2 ^ length control"
    and c1: "c1 \<noteq> []"
    by auto
  have ok: "snd (ApproximatelyMultiplexZ a 0 c0 control t) = None"
    "snd (ApproximatelyMultiplexZ a 0 c1 control t) = None" for a
    using len by (simp_all add: ApproximatelyMultiplexZ_completes)
  from c1 have any: "\<exists>c\<in>set c1. (0::real) \<le> \<bar>c\<bar>"
    by (cases c1) auto
  have count: "length (filter is_CNOT (fst (ApproximatelyMultiplexZ a 0 cs (control @ [q]) t))) =
      length (filter is_CNOT (fst (ApproximatelyMultiplexZ a 0 c0 control t))) +
      length (filter is_CNOT (fst (ApproximatelyMultiplexZ a 0 c1 control t))) + 2" for a
    by (cases a)
       (simp_all add: ApproximatelyMultiplexZ_node [OF _ snoc.prems split] any c1 block_two
          fst_andThen ok within_apply_completed is_CNOT_def)
  define x :: nat where "x = 2 ^ length control"
  have x: "1 \<le> x" and top: "2 ^ (length (control @ [q]) + 1) = 4 * x"
    by (simp_all add: x_def)
  from snoc.IH [OF len(1)] snoc.IH [OF len(2)]
  have "length (filter is_CNOT (fst (ApproximatelyMultiplexZ adj 0 cs (control @ [q]) t))) =
      (2 * x - 2) + (2 * x - 2) + 2"
    by (simp add: count x_def)
  with x show ?case
    unfolding top by arith
qed

text \<open>
  Claim C3. In \<^verbatim>\<open>ApproximatelyMultiplexZ\<close> the odd subtree is expanded (the
  recursive call on the odd half, between two \<^verbatim>\<open>CNOT\<close> gates from the last
  control) iff some \<open>|odd[i]| \<ge> tolerance\<close>, so at tolerance \<open>0\<close> it is always
  expanded; the leaf of length 1 emits its Z rotation iff \<open>|angle| > tolerance\<close>, so
  a leaf angle of exactly \<open>0\<close> is elided even at tolerance \<open>0\<close>. The expansion is
  stated twice: as the equation of the level, and as the presence of the
  \<^verbatim>\<open>CNOT\<close> from the last control among the emitted gates (the controls of a
  register being distinct). At tolerance \<open>0\<close> every subtree is expanded: the number
  of \<^verbatim>\<open>CNOT\<close> gates is that of the full tree.
\<close>

theorem ApproximatelyMultiplexZ_pruning:
  assumes "control \<noteq> []" and "length coefficients \<le> 2 ^ length control"
    and "last control \<notin> set (butlast control)"
    and "MultiplexZCoefficients
           (coefficients @ replicate (2 ^ length control - length coefficients) 0) = (evens, odds)"
  shows "ApproximatelyMultiplexZ adj tolerance coefficients control target =
           block adj
             [ApproximatelyMultiplexZ adj tolerance evens (Most control) target,
              if \<exists>c\<in>set odds. tolerance \<le> \<bar>c\<bar>
              then within_apply (\<lambda>a. call a (CNOT (last control) target))
                     (ApproximatelyMultiplexZ adj tolerance odds (Most control) target)
              else emit []] \<and>
         (CNOT (last control) target
            \<in> set (fst (ApproximatelyMultiplexZ adj tolerance coefficients control target))
          \<longleftrightarrow> (\<exists>c\<in>set odds. tolerance \<le> \<bar>c\<bar>)) \<and>
         CNOT (last control) target
            \<in> set (fst (ApproximatelyMultiplexZ adj 0 coefficients control target)) \<and>
         length (filter is_CNOT (fst (ApproximatelyMultiplexZ adj 0 coefficients control target))) =
           2 ^ (length control + 1) - 2 \<and>
         ApproximatelyMultiplexZ adj tolerance [angle] [] target =
           (if \<bar>angle\<bar> > tolerance
            then [Exp [PauliZ] (if adj then - angle else angle) [target]] else [], None) \<and>
         ApproximatelyMultiplexZ adj 0 [0] [] target = ([], None)"
proof -
  let ?even = "\<lambda>a tol. ApproximatelyMultiplexZ a tol evens (butlast control) target"
  let ?odd = "\<lambda>a tol. ApproximatelyMultiplexZ a tol odds (butlast control) target"
  let ?flip = "CNOT (last control) target"
  note node = ApproximatelyMultiplexZ_node [OF assms(1,2,4), of _ _ target]
  from MultiplexZCoefficients_padded_length [OF assms(1,2,4)]
  have len: "length evens \<le> 2 ^ length (butlast control)"
    "length odds \<le> 2 ^ length (butlast control)" and odds: "odds \<noteq> []"
    by auto
  have ok: "snd (?even a tol) = None" "snd (?odd a tol) = None" for a tol
    using len by (simp_all add: ApproximatelyMultiplexZ_completes)
  have no_cnot: "?flip \<notin> set (fst (?even a tol))" for a tol
    using ApproximatelyMultiplexZ_CNOT_controls [of "last control" target a tol evens
        "butlast control" target] assms(3)
    by blast
  have gates: "set (fst (ApproximatelyMultiplexZ a tol coefficients control target)) =
      (if \<exists>c\<in>set odds. tol \<le> \<bar>c\<bar>
       then set (fst (?even a tol)) \<union> {?flip} \<union> set (fst (?odd a tol))
       else set (fst (?even a tol)))" for a tol
    by (cases a) (auto simp: node block_two fst_andThen ok within_apply_completed)
  have expand: "?flip \<in> set (fst (ApproximatelyMultiplexZ adj tol coefficients control target))
          \<longleftrightarrow> (\<exists>c\<in>set odds. tol \<le> \<bar>c\<bar>)" for tol
    using no_cnot [of adj tol] by (simp add: gates)
  have zero: "\<exists>c\<in>set odds. (0::real) \<le> \<bar>c\<bar>"
    using odds by (cases odds) auto
  have leaf: "ApproximatelyMultiplexZ adj tol [a] [] target =
           (if \<bar>a\<bar> > tol
            then [Exp [PauliZ] (if adj then - a else a) [target]] else [], None)" for tol a
    by (simp add: ApproximatelyMultiplexZ_leaf)
  note full = ApproximatelyMultiplexZ_tolerance_zero_full_tree [OF assms(2), of adj target]
  from node [of adj tolerance] expand [of tolerance] expand [of 0] zero leaf [of tolerance angle]
    leaf [of 0 0] full
  show ?thesis
    by (simp add: Most_def)
qed

theorem ApproximatelyMultiplexZ_pruning_witness:
  "[3::nat] \<noteq> [] \<and> length [1, 2 :: real] \<le> 2 ^ length [3::nat] \<and>
   last [3::nat] \<notin> set (butlast [3]) \<and>
   MultiplexZCoefficients ([1, 2] @ replicate (2 ^ length [3::nat] - length [1, 2 :: real]) 0) =
     ([3 / 2], [- (1 / 2)]) \<and>
   (CNOT (last [3]) 7 \<in> set (fst (ApproximatelyMultiplexZ False (1 / 4) [1, 2] [3] 7))
      \<longleftrightarrow> (\<exists>c\<in>set [- (1 / 2) :: real]. 1 / 4 \<le> \<bar>c\<bar>)) \<and>
   CNOT (last [3]) 7 \<in> set (fst (ApproximatelyMultiplexZ False 0 [1, 2] [3] 7)) \<and>
   length (filter is_CNOT (fst (ApproximatelyMultiplexZ False 0 [1, 2] [3] 7))) = 2 \<and>
   ApproximatelyMultiplexZ False (1 / 4) [1] [] 7 = ([Exp [PauliZ] 1 [7]], None) \<and>
   ApproximatelyMultiplexZ False 0 [0] [] 7 = ([], None)"
proof -
  have h1: "[3::nat] \<noteq> []" by simp
  have h2: "length [1, 2 :: real] \<le> 2 ^ length [3::nat]" by simp
  have h3: "last [3::nat] \<notin> set (butlast [3])" by simp
  have h4: "MultiplexZCoefficients
      ([1, 2] @ replicate (2 ^ length [3::nat] - length [1, 2 :: real]) 0) = ([3 / 2], [- (1 / 2)])"
    by (simp add: MultiplexZCoefficients_def)
  from ApproximatelyMultiplexZ_pruning [OF h1 h2 h3 h4, of False "1 / 4" 7 1, THEN conjunct2]
    h1 h2 h3 h4
  show ?thesis by simp
qed

section \<open>Basis changes of the multiplexed Pauli rotation\<close>

lemma ApproximatelyMultiplexPauli_Z:
  "ApproximatelyMultiplexPauli adj tol cs PauliZ control t =
     ApproximatelyMultiplexZ adj tol cs control t"
  by (simp add: ApproximatelyMultiplexPauli.simps)

lemma ApproximatelyMultiplexPauli_X:
  "ApproximatelyMultiplexPauli adj tol cs PauliX control t =
     within_apply (\<lambda>a. call a (H t)) (ApproximatelyMultiplexZ adj tol cs control t)"
  by (subst ApproximatelyMultiplexPauli.simps) (simp add: ApproximatelyMultiplexPauli_Z)

lemma ApproximatelyMultiplexPauli_Y:
  "ApproximatelyMultiplexPauli adj tol cs PauliY control t =
     within_apply (\<lambda>a. call (\<not> a) (S t))
       (within_apply (\<lambda>a. call a (H t)) (ApproximatelyMultiplexZ adj tol cs control t))"
  by (subst ApproximatelyMultiplexPauli.simps) (simp add: ApproximatelyMultiplexPauli_X)

lemma within_apply_failed:
  "snd b = Some e \<Longrightarrow>
   within_apply (\<lambda>a. call (f a) g) b = ((if f False then AdjointGate g else g) # fst b, Some e)"
  by (cases b) (simp add: within_apply_def call_def emit_def)




text \<open>
  In general, when the Z-axis body fails, the run stops there: the basis change has been
  emitted, its inverse has not.
\<close>

lemma ApproximatelyMultiplexPauli_body_fails:
  assumes "ApproximatelyMultiplexZ adj tolerance coefficients control target = (body, Some e)"
  shows "ApproximatelyMultiplexPauli adj tolerance coefficients PauliX control target =
           (H target # body, Some e) \<and>
         ApproximatelyMultiplexPauli adj tolerance coefficients PauliY control target =
           (AdjointS target # H target # body, Some e)"
  using assms
  by (simp add: ApproximatelyMultiplexPauli_X ApproximatelyMultiplexPauli_Y within_apply_failed)

section \<open>Blocks of completed statements\<close>

lemma snd_foldr_andThen:
  "snd (foldr andThen stmts (emit [])) = None \<longleftrightarrow> (\<forall>s\<in>set stmts. snd s = None)"
  by (induction stmts) (auto simp: snd_andThen)

lemma snd_block: "snd (block adj stmts) = None \<longleftrightarrow> (\<forall>s\<in>set stmts. snd s = None)"
  by (simp add: block_def snd_foldr_andThen)

lemma fst_foldr_andThen:
  "\<forall>s\<in>set stmts. snd s = None \<Longrightarrow>
   fst (foldr andThen stmts (emit [])) = concat (map fst stmts)"
  by (induction stmts) (auto simp: fst_andThen)

lemma set_fst_block:
  "\<forall>s\<in>set stmts. snd s = None \<Longrightarrow> set (fst (block adj stmts)) = (\<Union>s\<in>set stmts. set (fst s))"
  by (auto simp: block_def fst_foldr_andThen)

section \<open>The disentangling loop and the control range\<close>

lemma SBM_loop_body_in_range:
  "2 * k + 1 < length cs \<Longrightarrow> \<exists>st'. SBM_loop_body cs (Inr st) (2 * k) = Inr st'"
  by (cases st) (auto simp: SBM_loop_body_def Item_def split: prod.splits)

lemma SBM_fold_even:
  "k \<le> m \<Longrightarrow> length cs = 2 * m \<Longrightarrow>
   \<exists>st'. foldl (SBM_loop_body cs) (Inr st) (map (\<lambda>j. 2 * j) [0..<k]) = Inr st'"
proof (induction k)
  case 0
  show ?case by (rule exI [of _ st]) simp
next
  case (Suc k)
  then obtain st' where "foldl (SBM_loop_body cs) (Inr st) (map (\<lambda>j. 2 * j) [0..<k]) = Inr st'"
    by auto
  moreover from Suc.prems have "2 * k + 1 < length cs" by simp
  ultimately show ?case
    using SBM_loop_body_in_range [of k cs st'] by simp
qed

lemma SBM_even:
  assumes "length cs = 2 * m"
  shows "\<exists>ys zs ns. StatePreparationSBMComputeCoefficients cs = Inr (ys, zs, ns) \<and>
           length ys = m \<and> length zs = m \<and> length ns = m"
proof -
  from assms have half: "(length cs + 1) div 2 = m" "Suc (length cs) div 2 = m" by simp_all
  from SBM_fold_even [OF order_refl assms] obtain zs ys ns where
    "foldl (SBM_loop_body cs)
       (Inr (replicate (length cs div 2) 0, replicate (length cs div 2) 0,
             replicate (length cs div 2) (ComplexPolar 0 0)))
       (map (\<lambda>j. 2 * j) [0..<m]) = Inr (zs, ys, ns)"
    by (metis prod_cases3)
  then have run: "StatePreparationSBMComputeCoefficients cs = Inr (ys, zs, ns)"
    by (simp add: StatePreparationSBMComputeCoefficients_def half)
  from SBM_length [OF run] assms run show ?thesis by simp
qed

lemma RangeItems_step_one:
  "RangeItems (Range s 1 e) = Inr (map (\<lambda>i. s + int i) [0..<nat (e - s + 1)])"
  by (simp add: RangeItems_def)

lemma IsRangeEmpty_step_one: "IsRangeEmpty (Range s 1 e) = Inr (e < s)"
  by (auto simp: IsRangeEmpty_def RangeItems_step_one)

lemma Items_consecutive:
  "s + k \<le> length xs \<Longrightarrow>
   Items xs (map (\<lambda>i. int s + int i) [0..<k]) = Inr (take k (drop s xs))"
proof (induction k arbitrary: s)
  case 0
  then show ?case by simp
next
  case (Suc k)
  from Suc.prems have "Suc s + k \<le> length xs" by simp
  have "(\<lambda>i. int s + int (Suc i)) = (\<lambda>i. int (Suc s) + int i)"
    by auto
  with Suc.IH [OF \<open>Suc s + k \<le> length xs\<close>] have
    rest: "Items xs (map (\<lambda>i. int s + int (Suc i)) [0..<k]) = Inr (take k (drop (Suc s) xs))"
    by simp
  from Suc.prems have "s < length xs" by simp
  then have "take (Suc k) (drop s xs) = xs ! s # take k (drop (Suc s) xs)"
    by (metis Cons_nth_drop_Suc take_Suc_Cons)
  with rest \<open>s < length xs\<close> show ?case
    by (simp add: map_upt_Suc Item_def del: upt_Suc)
qed

lemma Slice_controls:
  assumes "s \<le> length register"
  shows "Slice register (Range (int s) 1 (int (length register) - 1)) = Inr (drop s register)"
proof -
  from assms have n: "nat (int (length register) - 1 - int s + 1) = length register - s"
    by simp
  from assms have "s + (length register - s) \<le> length register" by simp
  from Items_consecutive [OF this] n show ?thesis
    by (simp add: Slice_def RangeItems_step_one)
qed

section \<open>Completion on valid input\<close>

lemma ApproximatelyMultiplexPauli_completes:
  assumes "length cs \<le> 2 ^ length control" and "pauli = PauliZ \<or> pauli = PauliY"
  shows "snd (ApproximatelyMultiplexPauli adj tol cs pauli control t) = None"
  using assms
  by (auto simp: ApproximatelyMultiplexPauli_Z ApproximatelyMultiplexPauli_Y
      ApproximatelyMultiplexZ_completes)

lemma ApproximatelyUnprepareArbitraryState_completes:
  assumes "1 \<le> s" and "s \<le> length register"
    and "length cs = 2 ^ (length register - s + 1)"
  shows "snd (ApproximatelyUnprepareArbitraryState adj tol cs
                (Range (int s) 1 (int (length register) - 1)) (int s - 1) register) = None"
  using assms
proof (induction "length register - s" arbitrary: s cs)
  case 0
  then have s: "s = length register" by simp
  from "0.prems" have "length cs = 2 * 1" by (simp add: s)
  from SBM_even [OF this] obtain ys zs ns where
    sbm: "StatePreparationSBMComputeCoefficients cs = Inr (ys, zs, ns)" and
    len: "length ys = 1" "length zs = 1" "length ns = 1"
    by blast
  from len(3) obtain r a where ns: "ns = [ComplexPolar r a]"
    by (cases ns; cases "hd ns") auto
  from "0.prems" have target: "Item register (int s - 1) = Inr (register ! (s - 1))"
    by (auto simp: Item_def nat_diff_distrib)
  have slice: "Slice register (Range (int s) 1 (int (length register) - 1)) = Inr []"
    using Slice_controls [of s register] by (simp add: s)
  have empty: "IsRangeEmpty (Range (int s) 1 (int (length register) - 1)) = Inr True"
    by (simp add: IsRangeEmpty_step_one s)
  have first: "Item ns 0 = Inr (ComplexPolar r a)"
    by (simp add: ns Item_def)
  show ?case
    by (subst ApproximatelyUnprepareArbitraryState.simps)
       (simp add: sbm snd_block slice target empty first
          ApproximatelyMultiplexPauli_completes len)
next
  case (Suc d)
  then have s: "s < length register" by simp
  from Suc.hyps(2) have d: "d = length register - Suc s" by simp
  from Suc.prems Suc.hyps(2) have "length cs = 2 * 2 ^ (length register - s)" by simp
  from SBM_even [OF this] obtain ys zs ns where
    sbm: "StatePreparationSBMComputeCoefficients cs = Inr (ys, zs, ns)" and
    len: "length ys = 2 ^ (length register - s)" "length zs = 2 ^ (length register - s)"
      "length ns = 2 ^ (length register - s)"
    by blast
  from Suc.prems have target: "Item register (int s - 1) = Inr (register ! (s - 1))"
    by (auto simp: Item_def nat_diff_distrib)
  have slice: "Slice register (Range (int s) 1 (int (length register) - 1)) = Inr (drop s register)"
    using Slice_controls [of s register] s by simp
  from s have "length ns = 2 ^ (length register - Suc s + 1)"
    by (simp add: len Suc_diff_Suc)
  from Suc.hyps(1) [OF d _ _ this] s
  have rec: "snd (ApproximatelyUnprepareArbitraryState adj tol ns
                (Range (int s + 1) 1 (int (length register) - 1)) (int s) register) = None"
    by (simp add: add.commute)
  have empty: "IsRangeEmpty (Range (int s) 1 (int (length register) - 1)) = Inr False"
    using s by (simp add: IsRangeEmpty_step_one)
  show ?case
    by (subst ApproximatelyUnprepareArbitraryState.simps)
       (simp add: sbm snd_block slice target empty rec
          ApproximatelyMultiplexPauli_completes len Let_def)
qed

lemma ApproximatelyPreparePureStateCP_completes:
  assumes "qubits \<noteq> []" and "length coefficients \<le> 2 ^ length qubits"
  shows "snd (ApproximatelyPreparePureStateCP adj tolerance coefficients qubits) = None"
proof -
  from assms(1) have n: "1 \<le> length qubits"
    by (cases qubits) auto
  then have rng: "(if int (length qubits) > 1 then Range 1 1 (int (length qubits) - 1)
                   else Range 1 1 0) = Range (int 1) 1 (int (length qubits) - 1)"
    by auto
  have len: "length (coefficients @ replicate (2 ^ length qubits - length coefficients)
                       (ComplexPolar 0 0)) = 2 ^ (length qubits - 1 + 1)"
    using assms(2) n by (cases "length qubits") simp_all
  from ApproximatelyUnprepareArbitraryState_completes [OF order_refl n len] show ?thesis
    unfolding ApproximatelyPreparePureStateCP_def Let_def rng
    by (simp add: Padded_tail [OF assms(2)])
qed

text \<open>
  On an empty register the entry point stops in the first iteration of the
  disentangling loop, which reads \<^verbatim>\<open>coefficients[1]\<close> of an array of length 1.
\<close>

lemma ApproximatelyPreparePureStateCP_empty_register:
  assumes "length coefficients \<le> 1"
  shows "ApproximatelyPreparePureStateCP adj tolerance coefficients [] =
           ([], Some IndexOutOfRange)"
proof -
  from assms have "coefficients = [] \<or> (\<exists>c. coefficients = [c])"
    by (cases coefficients) auto
  then show ?thesis
    by (auto simp: ApproximatelyPreparePureStateCP_def Padded_def
        ApproximatelyUnprepareArbitraryState.simps StatePreparationSBMComputeCoefficients_def
        SBM_loop_body_def Item_def failwith_def)
qed

section \<open>Claims about the entry points\<close>

text \<open>
  Claim C6. For a register of \<open>n\<close> qubits, \<^verbatim>\<open>ApproximatelyPreparePureStateCP\<close>
  and \<^verbatim>\<open>PreparePureStateD\<close> called with a coefficient array of length strictly
  greater than \<open>2^n\<close> fail with an invalid-argument error before any gate is
  emitted; the array is not truncated. The failure is the one of \<^verbatim>\<open>Padded\<close>.
\<close>

theorem coefficient_array_too_long:
  assumes "2 ^ length qubits < length coefficients" and "2 ^ length qubits < length reals"
  shows "ApproximatelyPreparePureStateCP adj tolerance coefficients qubits =
           ([], Some InvalidArgument) \<and>
         PreparePureStateD adj reals qubits = ([], Some InvalidArgument)"
  using assms
  by (simp add: ApproximatelyPreparePureStateCP_def PreparePureStateD_def Let_def
      Padded_too_long failwith_def)

theorem coefficient_array_too_long_witness:
  "2 ^ length [5::nat] < length [ComplexPolar 1 0, ComplexPolar 1 0, ComplexPolar 1 0] \<and>
   2 ^ length [5::nat] < length [1, 1, 1 :: real] \<and>
   ApproximatelyPreparePureStateCP False 0 [ComplexPolar 1 0, ComplexPolar 1 0, ComplexPolar 1 0]
     [5] = ([], Some InvalidArgument) \<and>
   PreparePureStateD False [1, 1, 1] [5] = ([], Some InvalidArgument)"
proof -
  have h1: "2 ^ length [5::nat] < length [ComplexPolar 1 0, ComplexPolar 1 0, ComplexPolar 1 0]"
    by simp
  have h2: "2 ^ length [5::nat] < length [1, 1, 1 :: real]" by simp
  from coefficient_array_too_long [OF h1 h2, of False 0] h1 h2 show ?thesis by simp
qed

text \<open>The rules that evaluate a call of an entry point on a concrete input.\<close>

lemmas evaluation_rules =
  ApproximatelyPreparePureStateCP_def PreparePureStateD_def Padded_def
  StatePreparationSBMComputeCoefficients_def SBM_loop_body_def Item_def BlochSphereCoordinates_def
  AbsComplexPolar_def ArgComplexPolar_def Sqrt_def ArcTan2_def block_def emit_def failwith_def
  call_def within_apply_def Slice_def RangeItems_def IsRangeEmpty_def AbsD_def Most_def Tail_def
  MultiplexZCoefficients_def ComplexAsComplexPolar_def AbsComplex_def ArgComplex_def Let_def
  ApproximatelyMultiplexZ.simps ApproximatelyMultiplexPauli.simps
  ApproximatelyUnprepareArbitraryState.simps

text \<open>
  Claim C8, as amended. Preparing \<open>c = [1, 0]\<close> on a one-qubit register with
  \<^verbatim>\<open>PreparePureStateD\<close> emits no rotation and no global phase, but it emits the
  basis change of the Y-axis step around its empty body: \<^verbatim>\<open>Adjoint S\<close>,
  \<^verbatim>\<open>H\<close>, \<^verbatim>\<open>H\<close>, \<^verbatim>\<open>S\<close> on the qubit. (At tolerance \<open>0\<close> the test
  \<^verbatim>\<open>AnyOutsideToleranceD\<close> holds of the angle \<open>0\<close>, so the step is entered.)
\<close>

theorem PreparePureStateD_basis_state_zero:
  "PreparePureStateD adj [1, 0] [q] = ([AdjointS q, H q, H q, S q], None)"
  by (simp add: evaluation_rules)

text \<open>The claim as first stated asks for the empty gate sequence.\<close>

theorem basis_state_zero_emits_gates:
  "PreparePureStateD False [1, 0] [0] \<noteq> ([], None)"
  by (simp add: evaluation_rules)

text \<open>
  Claim C7 asks for an invalid-argument error on a negative tolerance. No function of the
  file tests the sign of the tolerance: with tolerance \<open>-1\<close> the preparation of
  \<open>[(1, 0), (0, 0)]\<close> on one qubit completes, with every rotation emitted.
\<close>

theorem negative_tolerance_accepted:
  "ApproximatelyPreparePureStateCP False (- 1) [ComplexPolar 1 0, ComplexPolar 0 0] [0] =
     ([Exp [PauliI] 0 [0], AdjointS 0, H 0, Exp [PauliZ] 0 [0], H 0, S 0, Exp [PauliZ] 0 [0]],
      None)"
  by (simp add: evaluation_rules)

section \<open>Negative tolerance\<close>

lemma AnyOutsideToleranceD_negative:
  "tol < 0 \<Longrightarrow> cs \<noteq> [] \<Longrightarrow> AnyOutsideToleranceD tol cs"
  by (cases cs) (auto simp: AbsD_def)

lemma ApproximatelyMultiplexZ_negative_tolerance:
  "tol < 0 \<Longrightarrow> length cs \<le> 2 ^ length control \<Longrightarrow>
   fst (ApproximatelyMultiplexZ adj tol cs control t) \<noteq> []"
proof (induction control arbitrary: cs rule: rev_induct)
  case Nil
  then show ?case by (simp add: ApproximatelyMultiplexZ_leaf)
next
  case (snoc q control)
  obtain c0 c1 where split:
    "MultiplexZCoefficients (cs @ replicate (2 ^ length (control @ [q]) - length cs) 0) = (c0, c1)"
    by (cases "MultiplexZCoefficients (cs @ replicate (2 ^ length (control @ [q]) - length cs) 0)")
  from MultiplexZCoefficients_padded_length [OF _ snoc.prems(2) split]
  have len: "length c0 \<le> 2 ^ length control" "length c1 \<le> 2 ^ length control"
    by simp_all
  have ok: "snd (ApproximatelyMultiplexZ a tol c0 control t) = None"
    "snd (ApproximatelyMultiplexZ a tol c1 control t) = None" for a
    using len by (simp_all add: ApproximatelyMultiplexZ_completes)
  from snoc.IH [OF snoc.prems(1) len(1)] show ?case
    by (cases adj)
       (simp_all add: ApproximatelyMultiplexZ_node [OF _ snoc.prems(2) split] block_two
          fst_andThen ok)
qed

lemma ApproximatelyUnprepareArbitraryState_negative_tolerance:
  assumes "tol < 0" and "1 \<le> s" and "s \<le> length register"
    and "length cs = 2 ^ (length register - s + 1)"
  shows "fst (ApproximatelyUnprepareArbitraryState adj tol cs
                (Range (int s) 1 (int (length register) - 1)) (int s - 1) register) \<noteq> []"
proof -
  from assms have "length cs = 2 * 2 ^ (length register - s)" by simp
  from SBM_even [OF this] obtain ys zs ns where
    sbm: "StatePreparationSBMComputeCoefficients cs = Inr (ys, zs, ns)" and
    len: "length ys = 2 ^ (length register - s)" "length zs = 2 ^ (length register - s)"
      "length ns = 2 ^ (length register - s)"
    by blast
  from assms have target: "Item register (int s - 1) = Inr (register ! (s - 1))"
    by (auto simp: Item_def nat_diff_distrib)
  have slice: "Slice register (Range (int s) 1 (int (length register) - 1)) = Inr (drop s register)"
    using Slice_controls [of s register] assms by simp
  from len have "zs \<noteq> []" "ys \<noteq> []" by auto
  with assms(1) have any: "AnyOutsideToleranceD tol zs" "AnyOutsideToleranceD tol ys"
    by (simp_all add: AnyOutsideToleranceD_negative)
  let ?z = "ApproximatelyMultiplexPauli adj tol zs PauliZ (drop s register) (register ! (s - 1))"
  let ?y = "ApproximatelyMultiplexPauli adj tol ys PauliY (drop s register) (register ! (s - 1))"
  have z: "fst ?z \<noteq> []" "snd ?z = None" and y: "snd ?y = None"
    using assms(1) len
    by (simp_all add: ApproximatelyMultiplexPauli_Z ApproximatelyMultiplexZ_negative_tolerance
        ApproximatelyMultiplexZ_completes ApproximatelyMultiplexPauli_completes)
  have "\<exists>rest. ApproximatelyUnprepareArbitraryState adj tol cs
                (Range (int s) 1 (int (length register) - 1)) (int s - 1) register =
          block adj [?z, ?y, rest]"
    by (subst ApproximatelyUnprepareArbitraryState.simps,
        simp only: sbm slice target any sum.case prod.case if_True)
       (rule exI, rule refl)
  then obtain rest where run: "ApproximatelyUnprepareArbitraryState adj tol cs
                (Range (int s) 1 (int (length register) - 1)) (int s - 1) register =
          block adj [?z, ?y, rest]"
    by blast
  from ApproximatelyUnprepareArbitraryState_completes [OF assms(2-4), of adj tol]
  have "snd rest = None"
    by (simp add: run snd_block)
  with z y have "set (fst ?z) \<subseteq> set (fst (block adj [?z, ?y, rest]))"
    by (simp add: set_fst_block)
  with z(1) show ?thesis
    unfolding run by (cases "fst ?z") auto
qed

text \<open>
  Claim C7, as amended. With a negative tolerance, a non-empty register of \<open>n\<close>
  qubits and at most \<open>2^n\<close> coefficients, \<^verbatim>\<open>ApproximatelyPreparePureStateCP\<close>
  raises no error: it completes, and it emits at least one gate (nothing is pruned).
\<close>

theorem negative_tolerance_completes:
  assumes "tolerance < 0" and "qubits \<noteq> []" and "length coefficients \<le> 2 ^ length qubits"
  shows "\<exists>gates. ApproximatelyPreparePureStateCP adj tolerance coefficients qubits = (gates, None) \<and>
           gates \<noteq> []"
proof -
  from assms(2) have n: "1 \<le> length qubits"
    by (cases qubits) auto
  then have rng: "(if int (length qubits) > 1 then Range 1 1 (int (length qubits) - 1)
                   else Range 1 1 0) = Range (int 1) 1 (int (length qubits) - 1)"
    by auto
  have len: "length (coefficients @ replicate (2 ^ length qubits - length coefficients)
                       (ComplexPolar 0 0)) = 2 ^ (length qubits - 1 + 1)"
    using assms(3) n by (cases "length qubits") simp_all
  from ApproximatelyUnprepareArbitraryState_negative_tolerance [OF assms(1) order_refl n len]
  have "fst (ApproximatelyPreparePureStateCP adj tolerance coefficients qubits) \<noteq> []"
    unfolding ApproximatelyPreparePureStateCP_def Let_def rng
    by (simp add: Padded_tail [OF assms(3)])
  with ApproximatelyPreparePureStateCP_completes [OF assms(2,3), of adj tolerance]
  show ?thesis
    by (cases "ApproximatelyPreparePureStateCP adj tolerance coefficients qubits") auto
qed

theorem negative_tolerance_completes_witness:
  "(- 1 :: real) < 0 \<and> [0::nat] \<noteq> [] \<and>
   length [ComplexPolar 1 0, ComplexPolar 0 0] \<le> 2 ^ length [0::nat] \<and>
   (\<exists>gates. ApproximatelyPreparePureStateCP False (- 1) [ComplexPolar 1 0, ComplexPolar 0 0] [0] =
       (gates, None) \<and> gates \<noteq> [])"
proof -
  have h1: "(- 1 :: real) < 0" by simp
  have h2: "[0::nat] \<noteq> []" by simp
  have h3: "length [ComplexPolar 1 0, ComplexPolar 0 0] \<le> 2 ^ length [0::nat]" by simp
  from negative_tolerance_completes [OF h1 h2 h3, of False] h1 h2 h3 show ?thesis by blast
qed

section \<open>Termination of the recursion\<close>

lemma ApproximatelyMultiplexZ_rel_decreases:
  assumes "ApproximatelyMultiplexZ_rel (adj', tol', cs', control', t') (adj, tol, cs, control, t)"
  shows "control' = Most control \<and> length control' < length control"
  using assms
proof (cases rule: ApproximatelyMultiplexZ_rel.cases)
  case 1
  then have "control \<noteq> []"
    by (auto dest!: Padded_length)
  with 1 show ?thesis by (simp add: Most_def)
next
  case 2
  then have "control \<noteq> []"
    by (auto dest!: Padded_length)
  with 2 show ?thesis by (simp add: Most_def)
qed

lemma ApproximatelyApplyDiagonalUnitary_rel_decreases:
  assumes "ApproximatelyApplyDiagonalUnitary_rel (adj', tol', cs', qubits') (adj, tol, cs, qubits)"
  shows "qubits' = Most qubits \<and> length qubits' < length qubits"
  using assms
  by (cases rule: ApproximatelyApplyDiagonalUnitary_rel.cases) (simp add: Most_def)

lemma ApproximatelyUnprepareArbitraryState_rel_decreases:
  assumes "ApproximatelyUnprepareArbitraryState_rel
             (adj', tol', ps', rng', tgt', reg') (adj, tol, ps, rng, tgt, reg)"
    and "RangeStep rng = 1"
  shows "RangeStep rng' = 1 \<and>
         (\<exists>items items'. RangeItems rng = Inr items \<and> RangeItems rng' = Inr items' \<and>
            length items' < length items)"
  using assms(1)
proof (cases rule: ApproximatelyUnprepareArbitraryState_rel.cases)
  case 1
  obtain s e where rng: "rng = Range s 1 e"
    using assms(2) by (cases rng) auto
  from 1 rng have "s \<le> e"
    by (auto simp: IsRangeEmpty_step_one)
  with 1 rng show ?thesis
    by (simp add: RangeItems_step_one)
qed

lemma ApproximatelyMultiplexZ_rel_base:
  "\<not> ApproximatelyMultiplexZ_rel callee (adj, tol, cs, [], t)"
proof
  assume "ApproximatelyMultiplexZ_rel callee (adj, tol, cs, [], t)"
  then show False
    by (cases rule: ApproximatelyMultiplexZ_rel.cases) (auto dest!: Padded_length)
qed

lemma ApproximatelyApplyDiagonalUnitary_rel_base:
  "\<not> ApproximatelyApplyDiagonalUnitary_rel callee (adj, tol, cs, [q])"
proof
  assume "ApproximatelyApplyDiagonalUnitary_rel callee (adj, tol, cs, [q])"
  then show False
    by (cases rule: ApproximatelyApplyDiagonalUnitary_rel.cases) (auto dest!: Padded_length)
qed

lemma ApproximatelyUnprepareArbitraryState_rel_base:
  assumes "IsRangeEmpty rng = Inr True"
  shows "\<not> ApproximatelyUnprepareArbitraryState_rel callee (adj, tol, ps, rng, tgt, reg)"
proof
  assume "ApproximatelyUnprepareArbitraryState_rel callee (adj, tol, ps, rng, tgt, reg)"
  then show False
    using assms by (cases rule: ApproximatelyUnprepareArbitraryState_rel.cases) auto
qed

text \<open>
  Claim C9. The synthesis recursion terminates. The relations
  \<open>ApproximatelyMultiplexZ_rel\<close>, \<open>ApproximatelyApplyDiagonalUnitary_rel\<close> and
  \<open>ApproximatelyUnprepareArbitraryState_rel\<close> hold between the arguments of a recursive
  call and the arguments of the call that makes it, under the tests that guard it. Every
  recursive call of \<^verbatim>\<open>ApproximatelyMultiplexZ\<close> and of
  \<^verbatim>\<open>ApproximatelyApplyDiagonalUnitary\<close> runs on the register without its last
  qubit, and every recursive call of \<^verbatim>\<open>ApproximatelyUnprepareArbitraryState\<close>
  on a control range of step 1 (the only ranges the entry point builds) runs on a range
  with strictly fewer controls. The recursion stops where no control is left:
  \<^verbatim>\<open>ApproximatelyMultiplexZ\<close> makes no call on an empty control array,
  \<^verbatim>\<open>ApproximatelyApplyDiagonalUnitary\<close> none on a register of one qubit (whose
  multiplexed rotation has no control), \<^verbatim>\<open>ApproximatelyUnprepareArbitraryState\<close>
  none on an empty control range. On a valid input (a non-empty register of \<open>n\<close>
  qubits, at most \<open>2^n\<close> coefficients, any tolerance) the entry point returns a
  complete gate sequence.
\<close>

theorem synthesis_recursion_terminates:
  "(ApproximatelyMultiplexZ_rel (adj', tol', cs', control', t') (adj, tol, cs, control, t) \<longrightarrow>
      control' = Most control \<and> length control' < length control) \<and>
   (ApproximatelyApplyDiagonalUnitary_rel (adj', tol', cs', qubits') (adj, tol, cs, qubits) \<longrightarrow>
      qubits' = Most qubits \<and> length qubits' < length qubits) \<and>
   (ApproximatelyUnprepareArbitraryState_rel
      (adj', tol', ps', rng', tgt', reg') (adj, tol, ps, rng, tgt, reg) \<and> RangeStep rng = 1 \<longrightarrow>
      RangeStep rng' = 1 \<and>
      (\<exists>items items'. RangeItems rng = Inr items \<and> RangeItems rng' = Inr items' \<and>
         length items' < length items)) \<and>
   \<not> ApproximatelyMultiplexZ_rel z (adj, tol, cs, [], t) \<and>
   \<not> ApproximatelyApplyDiagonalUnitary_rel d (adj, tol, cs, [q]) \<and>
   (IsRangeEmpty rng = Inr True \<longrightarrow>
      \<not> ApproximatelyUnprepareArbitraryState_rel u (adj, tol, ps, rng, tgt, reg)) \<and>
   (register \<noteq> [] \<and> length coefficients \<le> 2 ^ length register \<longrightarrow>
      (\<exists>gates. ApproximatelyPreparePureStateCP adj tol coefficients register = (gates, None)))"
proof -
  have "\<exists>gates. ApproximatelyPreparePureStateCP adj tol coefficients register = (gates, None)"
    if "register \<noteq> []" and "length coefficients \<le> 2 ^ length register"
    using ApproximatelyPreparePureStateCP_completes [OF that, of adj tol]
    by (cases "ApproximatelyPreparePureStateCP adj tol coefficients register") auto
  then show ?thesis
    using ApproximatelyMultiplexZ_rel_decreases [of adj' tol' cs' control' t' adj tol cs control t]
      ApproximatelyApplyDiagonalUnitary_rel_decreases [of adj' tol' cs' qubits' adj tol cs qubits]
      ApproximatelyUnprepareArbitraryState_rel_decreases
        [of adj' tol' ps' rng' tgt' reg' adj tol ps rng tgt reg]
      ApproximatelyMultiplexZ_rel_base [of z adj tol cs t]
      ApproximatelyApplyDiagonalUnitary_rel_base [of d adj tol cs q]
      ApproximatelyUnprepareArbitraryState_rel_base [of rng u adj tol ps tgt reg]
    by blast
qed

theorem synthesis_recursion_terminates_witness:
  "ApproximatelyMultiplexZ_rel (False, 0, [3 / 2], Most [3], 7) (False, 0, [1, 2], [3], 7) \<and>
   length (Most [3::nat]) < length [3::nat] \<and>
   ApproximatelyApplyDiagonalUnitary_rel
     (False, 0, [2, 3], Most [3, 4]) (False, 0, [1, 2, 3, 4], [3, 4]) \<and>
   length (Most [3, 4 :: nat]) < length [3, 4 :: nat] \<and>
   ApproximatelyUnprepareArbitraryState_rel
     (False, 0, [ComplexPolar 1 0, ComplexPolar 0 0], Range 2 1 1, 1, [5, 6])
     (False, 0, [ComplexPolar 1 0, ComplexPolar 0 0, ComplexPolar 0 0, ComplexPolar 0 0],
      Range 1 1 1, 0, [5, 6]) \<and>
   RangeStep (Range 1 1 1) = 1 \<and>
   (\<exists>items items'. RangeItems (Range 1 1 1) = Inr items \<and> RangeItems (Range 2 1 1) = Inr items' \<and>
      length items' < length items) \<and>
   IsRangeEmpty (Range 2 1 1) = Inr True \<and>
   \<not> ApproximatelyUnprepareArbitraryState_rel
       (False, 0, [ComplexPolar 1 0], Range 3 1 1, 2, [5, 6])
       (False, 0, [ComplexPolar 1 0, ComplexPolar 0 0], Range 2 1 1, 1, [5, 6]) \<and>
   [5, 6 :: nat] \<noteq> [] \<and>
   length [ComplexPolar 1 0, ComplexPolar 0 0, ComplexPolar 0 0, ComplexPolar 0 0]
     \<le> 2 ^ length [5, 6 :: nat] \<and>
   (\<exists>gates. ApproximatelyPreparePureStateCP False 0
       [ComplexPolar 1 0, ComplexPolar 0 0, ComplexPolar 0 0, ComplexPolar 0 0] [5, 6] =
       (gates, None))"
proof -
  have z: "ApproximatelyMultiplexZ_rel (False, 0, [3 / 2], Most [3], 7) (False, 0, [1, 2], [3], 7)"
    by (rule ApproximatelyMultiplexZ_rel.intros(1) [where b = "[1, 2]" and y = "[- (1 / 2)]"])
       (simp_all add: Padded_def MultiplexZCoefficients_def)
  have d: "ApproximatelyApplyDiagonalUnitary_rel
     (False, 0, [2, 3], Most [3, 4]) (False, 0, [1, 2, 3, 4], [3, 4])"
    by (rule ApproximatelyApplyDiagonalUnitary_rel.intros
          [where b = "[1, 2, 3, 4]" and y = "[- 1, - 1]"])
       (simp_all add: Padded_def MultiplexZCoefficients_def)
  have u: "ApproximatelyUnprepareArbitraryState_rel
     (False, 0, [ComplexPolar 1 0, ComplexPolar 0 0], Range 2 1 1, 1, [5, 6])
     (False, 0, [ComplexPolar 1 0, ComplexPolar 0 0, ComplexPolar 0 0, ComplexPolar 0 0],
      Range 1 1 1, 0, [5, 6])"
    by (rule ApproximatelyUnprepareArbitraryState_rel.intros
          [where b = "([0, 0], [0, 0], [ComplexPolar 1 0, ComplexPolar 0 0])"
             and x = "[0, 0]" and y = "([0, 0], [ComplexPolar 1 0, ComplexPolar 0 0])"
             and xa = "[0, 0]" and ba = False])
       (simp_all add: StatePreparationSBMComputeCoefficients_def SBM_loop_body_def Item_def
          BlochSphereCoordinates_def AbsComplexPolar_def ArgComplexPolar_def Sqrt_def
          ArcTan2_def IsRangeEmpty_step_one)
  have s: "RangeStep (Range 1 1 1) = 1" by simp
  have r: "[5, 6 :: nat] \<noteq> []" by simp
  have l: "length [ComplexPolar 1 0, ComplexPolar 0 0, ComplexPolar 0 0, ComplexPolar 0 0]
     \<le> 2 ^ length [5, 6 :: nat]" by simp
  have e: "IsRangeEmpty (Range 2 1 1) = Inr True"
    by (simp add: IsRangeEmpty_step_one)
  note t = synthesis_recursion_terminates
    [where adj' = False and tol' = 0 and adj = False and tol = 0
       and cs' = "[3 / 2]" and control' = "Most [3]" and t' = 7 and cs = "[1, 2]"
       and control = "[3]" and t = 7]
  note t1 = t [THEN conjunct1, THEN mp, OF z]
  note t' = synthesis_recursion_terminates
    [where adj' = False and tol' = 0 and adj = False and tol = 0
       and cs' = "[2, 3]" and qubits' = "Most [3, 4]" and cs = "[1, 2, 3, 4]"
       and qubits = "[3, 4]"
       and ps' = "[ComplexPolar 1 0, ComplexPolar 0 0]" and rng' = "Range 2 1 1" and tgt' = 1
       and reg' = "[5, 6]"
       and ps = "[ComplexPolar 1 0, ComplexPolar 0 0, ComplexPolar 0 0, ComplexPolar 0 0]"
       and rng = "Range 1 1 1" and tgt = 0 and reg = "[5, 6]"
       and register = "[5, 6]"
       and coefficients = "[ComplexPolar 1 0, ComplexPolar 0 0, ComplexPolar 0 0, ComplexPolar 0 0]"]
  note rest = t' [THEN conjunct2, THEN conjunct2]
  note t2 = t' [THEN conjunct2, THEN conjunct1, THEN mp, OF d]
  note t3 = rest [THEN conjunct1, THEN mp, OF conjI [OF u s]]
  note t4 = rest [THEN conjunct2, THEN conjunct2, THEN conjunct2, THEN conjunct2, THEN mp,
      OF conjI [OF r l]]
  note t5 = synthesis_recursion_terminates
    [where adj = False and tol = 0 and ps = "[ComplexPolar 1 0, ComplexPolar 0 0]"
       and rng = "Range 2 1 1" and tgt = 1 and reg = "[5, 6]"
       and u = "(False, 0, [ComplexPolar 1 0], Range 3 1 1, 2, [5, 6])",
     THEN conjunct2, THEN conjunct2, THEN conjunct2, THEN conjunct2, THEN conjunct2,
     THEN conjunct1, THEN mp, OF e]
  from z d u s r l e t1 t2 t3 t4 t5 show ?thesis
    by (intro conjI) (simp_all only: simp_thms)
qed

section \<open>The adjoint flag yields the reversed sequence of adjoint gates\<close>

text \<open>
  On valid input the outcome under the flag is the inverse of the outcome of the body,
  for the multiplexed rotations, the disentangling recursion and the entry point.
\<close>

lemma AdjointGate_involution [simp]: "AdjointGate (AdjointGate g) = g"
  by (cases g) simp_all

lemma AdjointGates_append [simp]: "AdjointGates (xs @ ys) = AdjointGates ys @ AdjointGates xs"
  by (simp add: AdjointGates_def)

lemma AdjointGates_Cons [simp]: "AdjointGates (g # gs) = AdjointGates gs @ [AdjointGate g]"
  by (simp add: AdjointGates_def)

lemma AdjointGates_Nil [simp]: "AdjointGates [] = []"
  by (simp add: AdjointGates_def)

lemma AdjointGates_involution [simp]: "AdjointGates (AdjointGates gs) = gs"
  by (induction gs) simp_all

lemma inverse_of_sym: "inverse_of a b \<Longrightarrow> inverse_of b a"
  by (auto simp: inverse_of_def)

lemma inverse_of_emit [simp]: "inverse_of (emit []) (emit [])"
  by (simp add: inverse_of_def)

lemma inverse_of_call [simp]: "inverse_of (call True g) (call False g)"
  by (simp add: inverse_of_def call_def)

lemma inverse_of_block_two:
  "inverse_of a a' \<Longrightarrow> inverse_of b b' \<Longrightarrow> inverse_of (block True [a, b]) (block False [a', b'])"
  by (simp add: inverse_of_def block_two fst_andThen snd_andThen)

lemma inverse_of_block_three:
  "inverse_of a a' \<Longrightarrow> inverse_of b b' \<Longrightarrow> inverse_of c c' \<Longrightarrow>
   inverse_of (block True [a, b, c]) (block False [a', b', c'])"
  by (simp add: inverse_of_def block_three fst_andThen snd_andThen)

lemma inverse_of_within_apply:
  "inverse_of b b' \<Longrightarrow> f True = (\<not> f False) \<Longrightarrow>
   inverse_of (within_apply (\<lambda>a. call (f a) g) b) (within_apply (\<lambda>a. call (f a) g) b')"
  by (simp add: inverse_of_def within_apply_completed)

lemma ApproximatelyMultiplexZ_adjoint:
  "length cs \<le> 2 ^ length control \<Longrightarrow>
   inverse_of (ApproximatelyMultiplexZ True tol cs control t)
              (ApproximatelyMultiplexZ False tol cs control t)"
proof (induction control arbitrary: cs rule: rev_induct)
  case Nil
  then show ?case by (simp add: ApproximatelyMultiplexZ_leaf inverse_of_def)
next
  case (snoc q control)
  obtain c0 c1 where split:
    "MultiplexZCoefficients (cs @ replicate (2 ^ length (control @ [q]) - length cs) 0) = (c0, c1)"
    by (cases "MultiplexZCoefficients (cs @ replicate (2 ^ length (control @ [q]) - length cs) 0)")
  from MultiplexZCoefficients_padded_length [OF _ snoc.prems split]
  have len: "length c0 \<le> 2 ^ length control" "length c1 \<le> 2 ^ length control"
    by simp_all
  from snoc.IH [OF len(1)] snoc.IH [OF len(2)] show ?case
    by (simp add: ApproximatelyMultiplexZ_node [OF _ snoc.prems split] inverse_of_block_two
        inverse_of_within_apply)
qed

lemma ApproximatelyMultiplexPauli_adjoint:
  assumes "length cs \<le> 2 ^ length control" and "pauli = PauliZ \<or> pauli = PauliY"
  shows "inverse_of (ApproximatelyMultiplexPauli True tol cs pauli control t)
                    (ApproximatelyMultiplexPauli False tol cs pauli control t)"
  using assms
  by (auto simp: ApproximatelyMultiplexPauli_Z ApproximatelyMultiplexPauli_Y
      ApproximatelyMultiplexZ_adjoint inverse_of_within_apply)

lemma ApproximatelyUnprepareArbitraryState_adjoint:
  assumes "1 \<le> s" and "s \<le> length register"
    and "length cs = 2 ^ (length register - s + 1)"
  shows "inverse_of
           (ApproximatelyUnprepareArbitraryState True tol cs
              (Range (int s) 1 (int (length register) - 1)) (int s - 1) register)
           (ApproximatelyUnprepareArbitraryState False tol cs
              (Range (int s) 1 (int (length register) - 1)) (int s - 1) register)"
  using assms
proof (induction "length register - s" arbitrary: s cs)
  case 0
  then have s: "s = length register" by simp
  from "0.prems" have "length cs = 2 * 1" by (simp add: s)
  from SBM_even [OF this] obtain ys zs ns where
    sbm: "StatePreparationSBMComputeCoefficients cs = Inr (ys, zs, ns)" and
    len: "length ys = 1" "length zs = 1" "length ns = 1"
    by blast
  from len(3) obtain r a where ns: "ns = [ComplexPolar r a]"
    by (cases ns; cases "hd ns") auto
  from "0.prems" have target: "Item register (int s - 1) = Inr (register ! (s - 1))"
    by (auto simp: Item_def nat_diff_distrib)
  have slice: "Slice register (Range (int s) 1 (int (length register) - 1)) = Inr []"
    using Slice_controls [of s register] by (simp add: s)
  have empty: "IsRangeEmpty (Range (int s) 1 (int (length register) - 1)) = Inr True"
    by (simp add: IsRangeEmpty_step_one s)
  have first: "Item ns 0 = Inr (ComplexPolar r a)"
    by (simp add: ns Item_def)
  show ?case
    by (subst (1 2) ApproximatelyUnprepareArbitraryState.simps)
       (simp add: sbm slice target empty first inverse_of_block_three
          ApproximatelyMultiplexPauli_adjoint len)
next
  case (Suc d)
  then have s: "s < length register" by simp
  from Suc.hyps(2) have d: "d = length register - Suc s" by simp
  from Suc.prems Suc.hyps(2) have "length cs = 2 * 2 ^ (length register - s)" by simp
  from SBM_even [OF this] obtain ys zs ns where
    sbm: "StatePreparationSBMComputeCoefficients cs = Inr (ys, zs, ns)" and
    len: "length ys = 2 ^ (length register - s)" "length zs = 2 ^ (length register - s)"
      "length ns = 2 ^ (length register - s)"
    by blast
  from Suc.prems have target: "Item register (int s - 1) = Inr (register ! (s - 1))"
    by (auto simp: Item_def nat_diff_distrib)
  have slice: "Slice register (Range (int s) 1 (int (length register) - 1)) = Inr (drop s register)"
    using Slice_controls [of s register] s by simp
  from s have "length ns = 2 ^ (length register - Suc s + 1)"
    by (simp add: len Suc_diff_Suc)
  from Suc.hyps(1) [OF d _ _ this] s
  have rec: "inverse_of
           (ApproximatelyUnprepareArbitraryState True tol ns
              (Range (int s + 1) 1 (int (length register) - 1)) (int s) register)
           (ApproximatelyUnprepareArbitraryState False tol ns
              (Range (int s + 1) 1 (int (length register) - 1)) (int s) register)"
    by (simp add: add.commute)
  have empty: "IsRangeEmpty (Range (int s) 1 (int (length register) - 1)) = Inr False"
    using s by (simp add: IsRangeEmpty_step_one)
  show ?case
    by (subst (1 2) ApproximatelyUnprepareArbitraryState.simps)
       (simp add: sbm slice target empty rec inverse_of_block_three
          ApproximatelyMultiplexPauli_adjoint len Let_def)
qed

lemma ApproximatelyPreparePureStateCP_adjoint:
  assumes "qubits \<noteq> []" and "length coefficients \<le> 2 ^ length qubits"
  shows "inverse_of (ApproximatelyPreparePureStateCP True tolerance coefficients qubits)
                    (ApproximatelyPreparePureStateCP False tolerance coefficients qubits)"
proof -
  from assms(1) have n: "1 \<le> length qubits"
    by (cases qubits) auto
  then have rng: "(if int (length qubits) > 1 then Range 1 1 (int (length qubits) - 1)
                   else Range 1 1 0) = Range (int 1) 1 (int (length qubits) - 1)"
    by auto
  have len: "length (coefficients @ replicate (2 ^ length qubits - length coefficients)
                       (ComplexPolar 0 0)) = 2 ^ (length qubits - 1 + 1)"
    using assms(2) n by (cases "length qubits") simp_all
  from ApproximatelyUnprepareArbitraryState_adjoint [OF order_refl n len, of tolerance]
  show ?thesis
    unfolding ApproximatelyPreparePureStateCP_def Let_def rng
    by (simp add: Padded_tail [OF assms(2)] inverse_of_sym)
qed

section \<open>The controlled specialisation completes\<close>

lemma Padded_head:
  "length xs \<le> 2 ^ k \<Longrightarrow>
   Padded (2 ^ k) d xs = Inr (replicate (2 ^ k - length xs) d @ xs)"
  by (simp add: Padded_def Let_def nat_power_eq)

lemma ApproximatelyMultiplexZ_controlled_completes:
  assumes "length cs \<le> 2 ^ length control"
  shows "snd (ApproximatelyMultiplexZ_controlled adj controlRegister tol cs control t) = None"
proof -
  let ?tail = "cs @ replicate (2 ^ length control - length cs) 0"
  let ?padded = "replicate (2 * 2 ^ length control - length ?tail) 0 @ ?tail"
  from assms have head: "Padded (2 * 2 ^ length control) 0 ?tail = Inr ?padded"
    using Padded_head [of ?tail "Suc (length control)" 0] by simp
  obtain c0 c1 where split: "MultiplexZCoefficients ?padded = (c0, c1)"
    by (cases "MultiplexZCoefficients ?padded")
  from MultiplexZCoefficients_length [OF split] assms
  have len: "length c0 \<le> 2 ^ length control" "length c1 \<le> 2 ^ length control"
    by simp_all
  then have ok: "snd (ApproximatelyMultiplexZ a tol c0 control t) = None"
    "snd (ApproximatelyMultiplexZ a tol c1 control t) = None" for a
    by (simp_all add: ApproximatelyMultiplexZ_completes)
  have "ApproximatelyMultiplexZ_controlled adj controlRegister tol cs control t =
          block adj
            [ApproximatelyMultiplexZ adj tol c0 control t,
             if AnyOutsideToleranceD tol c1
             then within_apply (\<lambda>a. call a (ControlledX controlRegister t))
                    (ApproximatelyMultiplexZ adj tol c1 control t)
             else emit []]"
    unfolding ApproximatelyMultiplexZ_controlled_def
    by (simp only: Padded_tail [OF assms] head split sum.case prod.case power_add power_one_right
        mult.commute [of _ "2::int"])
  then show ?thesis
    by (simp add: snd_block ok)
qed

end
